theory Spec2Isabelle
  imports Complex_Main "HOL-Library.Multiset" "HOL-Library.List_Lexorder" "HOL-Library.Char_ord"
begin

section \<open>Python values\<close>

text \<open>
  The two clients of the repository, \<^verbatim>\<open>SentinelGateClient\<close> (sdks/python/sentinelgate/client.py)
  and \<^verbatim>\<open>_SentinelGateClient\<close> (internal/domain/runtime/python/sitecustomize.py), exchange
  JSON documents with the decision service and keep them as Python dicts. A JSON value is a
  \<open>jval\<close>; a Python dict is an association list in insertion order whose keys are unique
  (numbers with a fractional part are left out of the model, no code path inspects them).
\<close>

datatype jval =
    JNull
  | JBool bool
  | JInt int
  | JStr string
  | JList "jval list"
  | JDict "(string \<times> jval) list"

type_synonym pydict = "(string \<times> jval) list"

text \<open>\<^verbatim>\<open>d.get(k, default)\<close>\<close>

definition dict_get :: "pydict \<Rightarrow> string \<Rightarrow> jval \<Rightarrow> jval" where
  "dict_get d k dflt = (case map_of d k of None \<Rightarrow> dflt | Some v \<Rightarrow> v)"

text \<open>Python truthiness, as used by \<^verbatim>\<open>if request_id:\<close>.\<close>

fun truthy :: "jval \<Rightarrow> bool" where
  "truthy JNull = False"
| "truthy (JBool b) = b"
| "truthy (JInt n) = (n \<noteq> 0)"
| "truthy (JStr s) = (s \<noteq> [])"
| "truthy (JList xs) = (xs \<noteq> [])"
| "truthy (JDict d) = (d \<noteq> [])"

text \<open>\<^verbatim>\<open>str(n)\<close> for a non-negative integer: its decimal digits.\<close>

definition digit_char :: "nat \<Rightarrow> char" where
  "digit_char d = char_of (48 + d)"

function str_nat :: "nat \<Rightarrow> string" where
  "str_nat n = (if n < 10 then [digit_char n] else str_nat (n div 10) @ [digit_char (n mod 10)])"
  by pat_completeness auto
termination
  by (relation "measure id") auto

declare str_nat.simps [simp del]

section \<open>The cache key\<close>

text \<open>
  \<^verbatim>\<open>sorted(arguments.items())\<close>: the items of a dict are (key, value) tuples with pairwise
  different keys, so the tuple comparison of \<^verbatim>\<open>sorted\<close> is decided by the keys alone
  (strings, compared by code point); the sort is stable.
\<close>

definition sorted_items :: "pydict \<Rightarrow> pydict" where
  "sorted_items d = sort_key fst d"

text \<open>
  \<^verbatim>\<open>_cache_key\<close> has the same body in both clients (client.py 296-302, sitecustomize.py
  249-256). \<open>arguments\<close> is \<^verbatim>\<open>None\<close> or a dict; \<^verbatim>\<open>if arguments:\<close> is false for \<^verbatim>\<open>None\<close> and for the
  empty dict. The builtin \<^verbatim>\<open>repr\<close> on the sorted item list is the parameter \<open>repr\<close>.
\<close>

type_synonym ckey = "string \<times> string \<times> string"

definition cache_key :: "(pydict \<Rightarrow> string) \<Rightarrow> string \<Rightarrow> string \<Rightarrow> pydict option \<Rightarrow> ckey" where
  "cache_key repr action_type action_name arguments =
     (let args_repr = (case arguments of
                         None \<Rightarrow> ''''
                       | Some d \<Rightarrow> if d \<noteq> [] then repr (sorted_items d) else '''')
      in (action_type, action_name, args_repr))"

text \<open>
  A rendering of a sorted item list in the manner of the builtin \<^verbatim>\<open>repr\<close>, for the concrete
  examples: strings of printable ASCII without quotes or backslashes, integers, booleans,
  \<^verbatim>\<open>None\<close>, lists and dicts.
\<close>

definition str_int :: "int \<Rightarrow> string" where
  "str_int n = (if n < 0 then CHR ''-'' # str_nat (nat (- n)) else str_nat (nat n))"

fun join_with :: "string \<Rightarrow> string list \<Rightarrow> string" where
  "join_with sep [] = []"
| "join_with sep [x] = x"
| "join_with sep (x # y # ys) = x @ sep @ join_with sep (y # ys)"

definition repr_str :: "string \<Rightarrow> string" where
  "repr_str s = [CHR 0x27] @ s @ [CHR 0x27]"

fun repr_jval :: "jval \<Rightarrow> string" where
  "repr_jval JNull = ''None''"
| "repr_jval (JBool b) = (if b then ''True'' else ''False'')"
| "repr_jval (JInt n) = str_int n"
| "repr_jval (JStr s) = repr_str s"
| "repr_jval (JList xs) = ''['' @ join_with '', '' (map repr_jval xs) @ '']''"
| "repr_jval (JDict d) =
     ''{'' @ join_with '', '' (map (\<lambda>kv. repr_str (fst kv) @ '': '' @ repr_jval (snd kv)) d) @ ''}''"

definition repr_items :: "pydict \<Rightarrow> string" where
  "repr_items items =
     ''['' @ join_with '', ''
              (map (\<lambda>kv. ''('' @ repr_str (fst kv) @ '', '' @ repr_jval (snd kv) @ '')'') items)
     @ '']''"

section \<open>Errors, effects and the environment\<close>

text \<open>
  The exceptions that leave \<^verbatim>\<open>evaluate\<close>. \<^verbatim>\<open>PolicyDeniedError\<close> carries \<open>rule_id\<close>, \<open>rule_name\<close>,
  \<open>reason\<close>, \<open>help_url\<close>, \<open>help_text\<close> (its message is \<^verbatim>\<open>"Policy denied: "\<close> followed by the
  reason, so it is not a field of its own); \<^verbatim>\<open>ApprovalTimeoutError\<close> carries its message and the
  request id. \<^verbatim>\<open>AttributeError\<close> is what \<^verbatim>\<open>resp_data.get\<close> raises when the response body is JSON
  but not an object; \<^verbatim>\<open>KeyError\<close> is what \<^verbatim>\<open>popitem\<close> raises on an empty \<^verbatim>\<open>OrderedDict\<close>.
\<close>

datatype error =
    ServerUnreachableError string
  | PolicyDeniedError jval jval jval jval jval
  | ApprovalTimeoutError string jval
  | PermissionError string
  | AttributeError
  | KeyError

text \<open>
  What a call does to the outside world, in order: the POST to the evaluate endpoint with its
  body, a GET of the status endpoint of a request id, \<^verbatim>\<open>time.sleep\<close>, \<^verbatim>\<open>warnings.warn\<close>. The server
  address, the API key and the timeout are the same in every request and are left out.
\<close>

datatype effect =
    PostEvaluate pydict
  | GetStatus jval
  | Sleep nat
  | Warn string

text \<open>
  The outcome of \<^verbatim>\<open>urlopen\<close> followed by \<^verbatim>\<open>json.loads\<close>: an exception (connection refused, HTTP
  error status, timeout, a body that is not JSON) with its text, or the parsed document.
\<close>

datatype net_result = NetError string | NetJson jval

text \<open>
  What one call of \<^verbatim>\<open>evaluate\<close> reads from outside the client: the clock at the cache check, the
  outcome of the evaluation request, the outcome of the i-th status request (from 0), the clock
  when a decision is stored, the clock when an audit event is built, and \<^verbatim>\<open>os.environ\<close>.
\<close>

record env =
  now_check :: real
  post_result :: net_result
  poll_results :: "nat \<Rightarrow> net_result"
  now_store :: real
  now_audit :: real
  environ :: "string \<Rightarrow> string option"

definition environ_get :: "env \<Rightarrow> string \<Rightarrow> string \<Rightarrow> string" where
  "environ_get e name dflt = (case environ e name of None \<Rightarrow> dflt | Some v \<Rightarrow> v)"

section \<open>The LRU cache\<close>

text \<open>
  \<^verbatim>\<open>self._cache\<close> is an \<^verbatim>\<open>OrderedDict\<close> from cache key to (response dict, timestamp): an
  association list, oldest entry first.
\<close>

type_synonym cache_entry = "pydict \<times> real"
type_synonym cache = "(ckey \<times> cache_entry) list"

text \<open>\<^verbatim>\<open>del self._cache[k]\<close>\<close>

definition od_del :: "ckey \<Rightarrow> cache \<Rightarrow> cache" where
  "od_del k c = filter (\<lambda>e. fst e \<noteq> k) c"

text \<open>\<^verbatim>\<open>self._cache.move_to_end(k)\<close> for a key that is present with entry \<open>v\<close>.\<close>

definition move_to_end :: "ckey \<Rightarrow> cache_entry \<Rightarrow> cache \<Rightarrow> cache" where
  "move_to_end k v c = od_del k c @ [(k, v)]"

text \<open>\<^verbatim>\<open>self._cache[k] = v\<close>: a present key keeps its position, a new key goes to the end.\<close>

fun od_set :: "ckey \<Rightarrow> cache_entry \<Rightarrow> cache \<Rightarrow> cache" where
  "od_set k v [] = [(k, v)]"
| "od_set k v (e # es) = (if fst e = k then (k, v) # es else e # od_set k v es)"

text \<open>
  \<^verbatim>\<open>while len(self._cache) > max: self._cache.popitem(last=False)\<close>. On an empty cache
  \<^verbatim>\<open>popitem\<close> raises \<^verbatim>\<open>KeyError\<close>, which happens when the maximum is negative.
\<close>

fun evict :: "int \<Rightarrow> cache \<Rightarrow> error option \<times> cache" where
  "evict max_size [] = (if 0 > max_size then (Some KeyError, []) else (None, []))"
| "evict max_size (e # es) =
     (if int (length (e # es)) > max_size then evict max_size es else (None, e # es))"

text \<open>
  The cache check of \<^verbatim>\<open>evaluate\<close> (client.py 117-124, sitecustomize.py 129-138): a live entry
  is returned and moved to the end, an expired one is deleted.
\<close>

definition cache_lookup :: "cache \<Rightarrow> ckey \<Rightarrow> real \<Rightarrow> real \<Rightarrow> pydict option \<times> cache" where
  "cache_lookup c k now ttl =
     (case map_of c k of
        None \<Rightarrow> (None, c)
      | Some entry \<Rightarrow>
          if now - snd entry < ttl then (Some (fst entry), move_to_end k entry c)
          else (None, od_del k c))"

text \<open>Storing an allow decision (client.py 189-192, sitecustomize.py 195-199).\<close>

definition cache_store :: "cache \<Rightarrow> ckey \<Rightarrow> pydict \<Rightarrow> real \<Rightarrow> int \<Rightarrow> error option \<times> cache" where
  "cache_store c k resp_data now max_size = evict max_size (od_set k (resp_data, now) c)"

section \<open>The approval poller\<close>

definition max_polls :: nat where
  "max_polls = 30"

definition poll_interval :: nat where
  "poll_interval = 2"

text \<open>
  One pass through the \<^verbatim>\<open>try\<close> block of \<^verbatim>\<open>SentinelGateClient._poll_approval\<close> (client.py
  240-287) on the outcome of the status request: \<open>Some\<close> when the method returns or raises
  \<^verbatim>\<open>PolicyDeniedError\<close>, \<open>None\<close> when the loop goes on (a status that is neither approved nor
  denied, or an exception swallowed by \<^verbatim>\<open>except Exception: continue\<close>, which includes the
  \<^verbatim>\<open>AttributeError\<close> of a status body that is not an object).
\<close>

definition sdk_poll_attempt :: "net_result \<Rightarrow> jval \<Rightarrow> pydict \<Rightarrow> bool \<Rightarrow> (error + pydict) option" where
  "sdk_poll_attempt res request_id original_response raise_on_deny =
     (case res of
        NetError exc \<Rightarrow> None
      | NetJson (JDict status_data) \<Rightarrow>
          (let status = dict_get status_data ''status'' (JStr '''') in
           if status = JStr ''approved'' \<or> status = JStr ''allow'' then
             Some (Inr [(''decision'', JStr ''allow''),
                        (''reason'', JStr ''approved''),
                        (''request_id'', request_id),
                        (''rule_id'', dict_get original_response ''rule_id'' (JStr '''')),
                        (''rule_name'', dict_get original_response ''rule_name'' (JStr '''')),
                        (''help_url'', JStr ''''),
                        (''help_text'', JStr ''''),
                        (''latency_ms'', dict_get original_response ''latency_ms'' (JInt 0))])
           else if status = JStr ''denied'' \<or> status = JStr ''deny'' then
             (let reason = dict_get status_data ''reason'' (JStr ''denied by reviewer'');
                  rule_id = dict_get original_response ''rule_id'' (JStr '''');
                  rule_name = dict_get original_response ''rule_name'' (JStr '''');
                  help_url = dict_get original_response ''help_url'' (JStr '''');
                  help_text = dict_get original_response ''help_text'' (JStr '''')
              in if raise_on_deny then
                   Some (Inl (PolicyDeniedError rule_id rule_name reason help_url help_text))
                 else
                   Some (Inr [(''decision'', JStr ''deny''),
                              (''reason'', reason),
                              (''request_id'', request_id),
                              (''rule_id'', rule_id),
                              (''rule_name'', rule_name),
                              (''help_url'', help_url),
                              (''help_text'', help_text),
                              (''latency_ms'', dict_get original_response ''latency_ms'' (JInt 0))]))
           else None)
      | NetJson _ \<Rightarrow> None)"

text \<open>
  \<^verbatim>\<open>for _ in range(max_polls)\<close>: attempt \<open>i\<close> with \<open>n\<close> attempts left. Every attempt sleeps, then
  sends the status request. \<open>None\<close> is the loop running out.
\<close>

fun sdk_poll_loop ::
  "(nat \<Rightarrow> net_result) \<Rightarrow> jval \<Rightarrow> pydict \<Rightarrow> bool \<Rightarrow> nat \<Rightarrow> nat \<Rightarrow> (error + pydict) option \<times> effect list"
where
  "sdk_poll_loop polls request_id original_response raise_on_deny i 0 = (None, [])"
| "sdk_poll_loop polls request_id original_response raise_on_deny i (Suc n) =
     (case sdk_poll_attempt (polls i) request_id original_response raise_on_deny of
        Some r \<Rightarrow> (Some r, [Sleep poll_interval, GetStatus request_id])
      | None \<Rightarrow>
          (case sdk_poll_loop polls request_id original_response raise_on_deny (Suc i) n of
             (r, tr) \<Rightarrow> (r, Sleep poll_interval # GetStatus request_id # tr)))"

definition sdk_poll_approval ::
  "(nat \<Rightarrow> net_result) \<Rightarrow> jval \<Rightarrow> pydict \<Rightarrow> bool \<Rightarrow> (error + pydict) \<times> effect list"
where
  "sdk_poll_approval polls request_id original_response raise_on_deny =
     (case sdk_poll_loop polls request_id original_response raise_on_deny 0 max_polls of
        (Some r, tr) \<Rightarrow> (r, tr)
      | (None, tr) \<Rightarrow>
          (Inl (ApprovalTimeoutError
                  (''Approval timed out after '' @ str_nat (max_polls * poll_interval) @ ''s'')
                  request_id), tr))"

text \<open>
  The same pass in \<^verbatim>\<open>_SentinelGateClient._poll_approval\<close> (sitecustomize.py 215-238), which
  never raises.
\<close>

definition rt_poll_attempt :: "net_result \<Rightarrow> jval \<Rightarrow> pydict \<Rightarrow> pydict option" where
  "rt_poll_attempt res request_id original_response =
     (case res of
        NetError exc \<Rightarrow> None
      | NetJson (JDict status_data) \<Rightarrow>
          (let status = dict_get status_data ''status'' (JStr '''') in
           if status = JStr ''approved'' \<or> status = JStr ''allow'' then
             Some [(''decision'', JStr ''allow''),
                   (''reason'', JStr ''approved''),
                   (''request_id'', request_id)]
           else if status = JStr ''denied'' \<or> status = JStr ''deny'' then
             Some [(''decision'', JStr ''deny''),
                   (''reason'', dict_get status_data ''reason'' (JStr ''denied by reviewer'')),
                   (''request_id'', request_id),
                   (''help_text'', dict_get original_response ''help_text'' (JStr ''''))]
           else None)
      | NetJson _ \<Rightarrow> None)"

fun rt_poll_loop ::
  "(nat \<Rightarrow> net_result) \<Rightarrow> jval \<Rightarrow> pydict \<Rightarrow> nat \<Rightarrow> nat \<Rightarrow> pydict option \<times> effect list"
where
  "rt_poll_loop polls request_id original_response i 0 = (None, [])"
| "rt_poll_loop polls request_id original_response i (Suc n) =
     (case rt_poll_attempt (polls i) request_id original_response of
        Some r \<Rightarrow> (Some r, [Sleep poll_interval, GetStatus request_id])
      | None \<Rightarrow>
          (case rt_poll_loop polls request_id original_response (Suc i) n of
             (r, tr) \<Rightarrow> (r, Sleep poll_interval # GetStatus request_id # tr)))"

definition rt_poll_approval ::
  "(nat \<Rightarrow> net_result) \<Rightarrow> jval \<Rightarrow> pydict \<Rightarrow> pydict \<times> effect list"
where
  "rt_poll_approval polls request_id original_response =
     (case rt_poll_loop polls request_id original_response 0 max_polls of
        (Some r, tr) \<Rightarrow> (r, tr)
      | (None, tr) \<Rightarrow>
          ([(''decision'', JStr ''deny''),
            (''reason'', JStr (''approval timeout after '' @ str_nat (max_polls * poll_interval) @ ''s'')),
            (''request_id'', request_id)], tr))"

section \<open>The SDK client\<close>

text \<open>
  The fields of \<^verbatim>\<open>SentinelGateClient\<close> that \<^verbatim>\<open>evaluate\<close> reads, and the cache it updates.
\<close>

record sdk_client =
  sdk_default_protocol :: string
  sdk_fail_mode :: string
  sdk_cache_ttl :: real
  sdk_cache_max_size :: int
  sdk_cache :: cache

text \<open>\<^verbatim>\<open>s.split(",")\<close> and \<^verbatim>\<open>s.strip()\<close>, for the roles of the environment.\<close>

fun split_comma :: "string \<Rightarrow> string list" where
  "split_comma [] = [[]]"
| "split_comma (x # xs) =
     (if x = CHR '','' then [] # split_comma xs
      else (case split_comma xs of [] \<Rightarrow> [[x]] | w # ws \<Rightarrow> (x # w) # ws))"

definition is_space :: "char \<Rightarrow> bool" where
  "is_space ch = ((of_char ch :: nat) \<in> {9, 10, 11, 12, 13, 28, 29, 30, 31, 32, 133, 160})"

definition strip :: "string \<Rightarrow> string" where
  "strip s = rev (dropWhile is_space (rev (dropWhile is_space s)))"

text \<open>Resolving the identity defaults and the protocol (client.py 104-113).\<close>

definition sdk_identity_name :: "env \<Rightarrow> string option \<Rightarrow> string" where
  "sdk_identity_name e identity_name =
     (case identity_name of
        None \<Rightarrow> environ_get e ''SENTINELGATE_IDENTITY_NAME'' ''sdk-client''
      | Some n \<Rightarrow> n)"

definition sdk_identity_roles :: "env \<Rightarrow> string list option \<Rightarrow> string list" where
  "sdk_identity_roles e identity_roles =
     (case identity_roles of
        None \<Rightarrow>
          (let roles_env = environ_get e ''SENTINELGATE_IDENTITY_ROLES'' '''' in
           if roles_env \<noteq> [] then filter (\<lambda>r. r \<noteq> []) (map strip (split_comma roles_env))
           else [''agent''])
      | Some rs \<Rightarrow> rs)"

definition sdk_proto :: "sdk_client \<Rightarrow> string option \<Rightarrow> string" where
  "sdk_proto c protocol =
     (case protocol of
        None \<Rightarrow> sdk_default_protocol c
      | Some p \<Rightarrow> if p \<noteq> [] then p else sdk_default_protocol c)"

text \<open>The request body (client.py 127-139).\<close>

definition sdk_request_body ::
  "string \<Rightarrow> string \<Rightarrow> string \<Rightarrow> string \<Rightarrow> string list \<Rightarrow> string option \<Rightarrow> pydict option
   \<Rightarrow> pydict option \<Rightarrow> pydict"
where
  "sdk_request_body action_type action_name proto identity_name identity_roles framework
                    arguments destination =
     [(''action_type'', JStr action_type),
      (''action_name'', JStr action_name),
      (''protocol'', JStr proto),
      (''identity_name'', JStr identity_name),
      (''identity_roles'', JList (map JStr identity_roles))]
     @ (case framework of None \<Rightarrow> [] | Some f \<Rightarrow> if f \<noteq> [] then [(''framework'', JStr f)] else [])
     @ (case arguments of None \<Rightarrow> [] | Some a \<Rightarrow> if a \<noteq> [] then [(''arguments'', JDict a)] else [])
     @ (case destination of None \<Rightarrow> [] | Some d \<Rightarrow> if d \<noteq> [] then [(''destination'', JDict d)] else [])"

text \<open>The \<^verbatim>\<open>except Exception as exc\<close> branch of the request (client.py 156-175).\<close>

definition sdk_fail_open_response :: pydict where
  "sdk_fail_open_response =
     [(''decision'', JStr ''allow''),
      (''reason'', JStr ''fail-open''),
      (''rule_id'', JStr ''''),
      (''rule_name'', JStr ''''),
      (''help_url'', JStr ''''),
      (''help_text'', JStr ''''),
      (''request_id'', JStr ''''),
      (''latency_ms'', JInt 0)]"

definition fail_open_warning :: "string \<Rightarrow> string" where
  "fail_open_warning exc =
     ''SentinelGate: Policy evaluation failed ('' @ exc @ ''), allowing action (fail-open)''"

definition sdk_on_failure :: "sdk_client \<Rightarrow> string \<Rightarrow> (error + pydict) \<times> sdk_client \<times> effect list" where
  "sdk_on_failure c exc =
     (if sdk_fail_mode c = ''closed'' then
        (Inl (ServerUnreachableError (''SentinelGate server unreachable: '' @ exc)), c, [])
      else (Inr sdk_fail_open_response, c, [Warn (fail_open_warning exc)]))"

text \<open>What \<^verbatim>\<open>evaluate\<close> does with a parsed response (client.py 177-205).\<close>

definition sdk_on_response ::
  "sdk_client \<Rightarrow> env \<Rightarrow> ckey \<Rightarrow> jval \<Rightarrow> bool \<Rightarrow> (error + pydict) \<times> sdk_client \<times> effect list"
where
  "sdk_on_response c e ck resp raise_on_deny =
     (case resp of
        JDict resp_data \<Rightarrow>
          (let decision = dict_get resp_data ''decision'' (JStr ''allow'') in
           if decision = JStr ''approval_required'' then
             (let request_id = dict_get resp_data ''request_id'' (JStr '''') in
              if truthy request_id then
                (case sdk_poll_approval (poll_results e) request_id resp_data raise_on_deny of
                   (r, tr) \<Rightarrow> (r, c, tr))
              else (Inr resp_data, c, []))
           else
             (case (if decision = JStr ''allow''
                    then cache_store (sdk_cache c) ck resp_data (now_store e) (sdk_cache_max_size c)
                    else (None, sdk_cache c)) of
                (Some err, cache') \<Rightarrow> (Inl err, c\<lparr>sdk_cache := cache'\<rparr>, [])
              | (None, cache') \<Rightarrow>
                  if decision = JStr ''deny'' \<and> raise_on_deny then
                    (Inl (PolicyDeniedError (dict_get resp_data ''rule_id'' (JStr ''''))
                                            (dict_get resp_data ''rule_name'' (JStr ''''))
                                            (dict_get resp_data ''reason'' (JStr ''''))
                                            (dict_get resp_data ''help_url'' (JStr ''''))
                                            (dict_get resp_data ''help_text'' (JStr ''''))),
                     c\<lparr>sdk_cache := cache'\<rparr>, [])
                  else (Inr resp_data, c\<lparr>sdk_cache := cache'\<rparr>, [])))
      | _ \<Rightarrow> (Inl AttributeError, c, []))"

text \<open>
  \<^verbatim>\<open>SentinelGateClient.evaluate\<close> (client.py 68-205): the result or the exception, the client
  afterwards, and the effects in order.
\<close>

definition sdk_evaluate ::
  "(pydict \<Rightarrow> string) \<Rightarrow> sdk_client \<Rightarrow> env \<Rightarrow> string \<Rightarrow> string \<Rightarrow> pydict option \<Rightarrow> pydict option
   \<Rightarrow> string option \<Rightarrow> string list option \<Rightarrow> string option \<Rightarrow> string option \<Rightarrow> bool
   \<Rightarrow> (error + pydict) \<times> sdk_client \<times> effect list"
where
  "sdk_evaluate repr c e action_type action_name arguments destination identity_name
                identity_roles protocol framework raise_on_deny =
     (let identity_name' = sdk_identity_name e identity_name;
          identity_roles' = sdk_identity_roles e identity_roles;
          proto = sdk_proto c protocol;
          ck = cache_key repr action_type action_name arguments
      in case cache_lookup (sdk_cache c) ck (now_check e) (sdk_cache_ttl c) of
           (Some cached, cache') \<Rightarrow> (Inr cached, c\<lparr>sdk_cache := cache'\<rparr>, [])
         | (None, cache') \<Rightarrow>
             (let body = sdk_request_body action_type action_name proto identity_name'
                           identity_roles' framework arguments destination
              in case (case post_result e of
                         NetError exc \<Rightarrow> sdk_on_failure (c\<lparr>sdk_cache := cache'\<rparr>) exc
                       | NetJson resp \<Rightarrow>
                           sdk_on_response (c\<lparr>sdk_cache := cache'\<rparr>) e ck resp raise_on_deny) of
                   (r, c', tr) \<Rightarrow> (r, c', PostEvaluate body # tr)))"

text \<open>\<^verbatim>\<open>SentinelGateClient.check\<close> (client.py 207-226).\<close>

definition sdk_check ::
  "(pydict \<Rightarrow> string) \<Rightarrow> sdk_client \<Rightarrow> env \<Rightarrow> string \<Rightarrow> string \<Rightarrow> pydict option \<Rightarrow> pydict option
   \<Rightarrow> string option \<Rightarrow> string list option \<Rightarrow> string option \<Rightarrow> string option
   \<Rightarrow> bool \<times> sdk_client \<times> effect list"
where
  "sdk_check repr c e action_type action_name arguments destination identity_name
             identity_roles protocol framework =
     (case sdk_evaluate repr c e action_type action_name arguments destination identity_name
             identity_roles protocol framework False of
        (Inr result, c', tr) \<Rightarrow>
          (dict_get result ''decision'' (JStr ''allow'') = JStr ''allow'', c', tr)
      | (Inl err, c', tr) \<Rightarrow> (True, c', tr))"

section \<open>The runtime client\<close>

text \<open>An entry of \<^verbatim>\<open>self._audit_buffer\<close> (sitecustomize.py 262-270).\<close>

record audit_event =
  ev_action_type :: string
  ev_action_name :: string
  ev_arguments :: pydict
  ev_decision :: string
  ev_reason :: string
  ev_timestamp :: real
  ev_agent_id :: string

text \<open>
  The fields of \<^verbatim>\<open>_SentinelGateClient\<close> that \<^verbatim>\<open>evaluate\<close> reads, and the cache and the audit
  buffer it updates. \<^verbatim>\<open>self._cache_max\<close> is set to 1000 by the constructor.
\<close>

record rt_client =
  rt_agent_id :: string
  rt_cache_ttl :: real
  rt_framework :: string
  rt_fail_mode :: string
  rt_cache :: cache
  rt_audit_buffer :: "audit_event list"

definition rt_cache_max :: int where
  "rt_cache_max = 1000"

text \<open>\<^verbatim>\<open>_buffer_audit_event\<close> (sitecustomize.py 260-272).\<close>

definition buffer_audit_event ::
  "rt_client \<Rightarrow> env \<Rightarrow> string \<Rightarrow> string \<Rightarrow> pydict option \<Rightarrow> string \<Rightarrow> string \<Rightarrow> rt_client"
where
  "buffer_audit_event c e action_type action_name arguments decision reason =
     (let event = \<lparr>ev_action_type = action_type,
                   ev_action_name = action_name,
                   ev_arguments = (case arguments of None \<Rightarrow> [] | Some a \<Rightarrow> a),
                   ev_decision = decision,
                   ev_reason = reason,
                   ev_timestamp = now_audit e,
                   ev_agent_id = rt_agent_id c\<rparr>
      in c\<lparr>rt_audit_buffer := rt_audit_buffer c @ [event]\<rparr>)"

text \<open>The request body (sitecustomize.py 141-152).\<close>

definition rt_request_body ::
  "rt_client \<Rightarrow> string \<Rightarrow> string \<Rightarrow> pydict option \<Rightarrow> pydict option \<Rightarrow> pydict"
where
  "rt_request_body c action_type action_name arguments destination =
     [(''action_type'', JStr action_type),
      (''action_name'', JStr action_name),
      (''protocol'', JStr ''runtime''),
      (''framework'', JStr (rt_framework c)),
      (''gateway'', JStr ''runtime''),
      (''arguments'', JDict (case arguments of None \<Rightarrow> [] | Some a \<Rightarrow> a)),
      (''identity_name'', JStr (''runtime-'' @ rt_agent_id c)),
      (''identity_roles'', JList [JStr ''agent''])]
     @ (case destination of None \<Rightarrow> [] | Some d \<Rightarrow> if d \<noteq> [] then [(''destination'', JDict d)] else [])"

text \<open>The \<^verbatim>\<open>except Exception as exc\<close> branch of the request (sitecustomize.py 168-182).\<close>

definition rt_on_failure ::
  "rt_client \<Rightarrow> env \<Rightarrow> string \<Rightarrow> string \<Rightarrow> pydict option \<Rightarrow> string
   \<Rightarrow> (error + pydict) \<times> rt_client \<times> effect list"
where
  "rt_on_failure c e action_type action_name arguments exc =
     (if rt_fail_mode c = ''closed'' then
        (Inl (PermissionError
                ''SentinelGate: Action denied - server unreachable (fail-closed mode)''),
         buffer_audit_event c e action_type action_name arguments ''deny'' ''fail-closed'',
         [])
      else
        (Inr [(''decision'', JStr ''allow''), (''reason'', JStr ''fail-open'')],
         buffer_audit_event c e action_type action_name arguments ''allow'' ''fail-open'',
         [Warn (fail_open_warning exc)]))"

text \<open>What \<^verbatim>\<open>evaluate\<close> does with a parsed response (sitecustomize.py 184-201).\<close>

definition rt_on_response ::
  "rt_client \<Rightarrow> env \<Rightarrow> ckey \<Rightarrow> jval \<Rightarrow> (error + pydict) \<times> rt_client \<times> effect list"
where
  "rt_on_response c e ck resp =
     (case resp of
        JDict resp_data \<Rightarrow>
          (let decision = dict_get resp_data ''decision'' (JStr ''allow'') in
           if decision = JStr ''approval_required'' then
             (let request_id = dict_get resp_data ''request_id'' (JStr '''') in
              if truthy request_id then
                (case rt_poll_approval (poll_results e) request_id resp_data of
                   (r, tr) \<Rightarrow> (Inr r, c, tr))
              else (Inr resp_data, c, []))
           else
             (case (if decision = JStr ''allow''
                    then cache_store (rt_cache c) ck resp_data (now_store e) rt_cache_max
                    else (None, rt_cache c)) of
                (Some err, cache') \<Rightarrow> (Inl err, c\<lparr>rt_cache := cache'\<rparr>, [])
              | (None, cache') \<Rightarrow> (Inr resp_data, c\<lparr>rt_cache := cache'\<rparr>, [])))
      | _ \<Rightarrow> (Inl AttributeError, c, []))"

text \<open>\<^verbatim>\<open>_SentinelGateClient.evaluate\<close> (sitecustomize.py 121-201).\<close>

definition rt_evaluate ::
  "(pydict \<Rightarrow> string) \<Rightarrow> rt_client \<Rightarrow> env \<Rightarrow> string \<Rightarrow> string \<Rightarrow> pydict option \<Rightarrow> pydict option
   \<Rightarrow> (error + pydict) \<times> rt_client \<times> effect list"
where
  "rt_evaluate repr c e action_type action_name arguments destination =
     (let ck = cache_key repr action_type action_name arguments
      in case cache_lookup (rt_cache c) ck (now_check e) (rt_cache_ttl c) of
           (Some cached, cache') \<Rightarrow> (Inr cached, c\<lparr>rt_cache := cache'\<rparr>, [])
         | (None, cache') \<Rightarrow>
             (let body = rt_request_body c action_type action_name arguments destination
              in case (case post_result e of
                         NetError exc \<Rightarrow>
                           rt_on_failure (c\<lparr>rt_cache := cache'\<rparr>) e action_type action_name
                             arguments exc
                       | NetJson resp \<Rightarrow> rt_on_response (c\<lparr>rt_cache := cache'\<rparr>) e ck resp) of
                   (r, c', tr) \<Rightarrow> (r, c', PostEvaluate body # tr)))"

section \<open>Sessions and observations\<close>

text \<open>
  A session is a sequence of \<^verbatim>\<open>evaluate\<close> calls on one client, each with the environment it
  meets; the results are listed in call order, each with the effects of its call.
\<close>

record action =
  act_type :: string
  act_name :: string
  act_arguments :: "pydict option"
  act_destination :: "pydict option"

record sdk_call = action +
  call_identity_name :: "string option"
  call_identity_roles :: "string list option"
  call_protocol :: "string option"
  call_framework :: "string option"
  call_raise_on_deny :: bool

definition sdk_call_evaluate ::
  "(pydict \<Rightarrow> string) \<Rightarrow> sdk_client \<Rightarrow> env \<Rightarrow> sdk_call \<Rightarrow> (error + pydict) \<times> sdk_client \<times> effect list"
where
  "sdk_call_evaluate repr c e a =
     sdk_evaluate repr c e (act_type a) (act_name a) (act_arguments a) (act_destination a)
       (call_identity_name a) (call_identity_roles a) (call_protocol a) (call_framework a)
       (call_raise_on_deny a)"

fun sdk_session ::
  "(pydict \<Rightarrow> string) \<Rightarrow> sdk_client \<Rightarrow> (env \<times> sdk_call) list \<Rightarrow> ((error + pydict) \<times> effect list) list"
where
  "sdk_session repr c [] = []"
| "sdk_session repr c ((e, a) # rest) =
     (case sdk_call_evaluate repr c e a of
        (r, c', tr) \<Rightarrow> (r, tr) # sdk_session repr c' rest)"

fun rt_session ::
  "(pydict \<Rightarrow> string) \<Rightarrow> rt_client \<Rightarrow> (env \<times> action) list \<Rightarrow> ((error + pydict) \<times> effect list) list"
where
  "rt_session repr c [] = []"
| "rt_session repr c ((e, a) # rest) =
     (case rt_evaluate repr c e (act_type a) (act_name a) (act_arguments a) (act_destination a) of
        (r, c', tr) \<Rightarrow> (r, tr) # rt_session repr c' rest)"

fun is_post :: "effect \<Rightarrow> bool" where
  "is_post (PostEvaluate body) = True"
| "is_post _ = False"

fun is_sleep :: "effect \<Rightarrow> bool" where
  "is_sleep (Sleep n) = True"
| "is_sleep _ = False"

fun is_poll :: "effect \<Rightarrow> bool" where
  "is_poll (GetStatus request_id) = True"
| "is_poll _ = False"

text \<open>A status outcome is terminal when it is an object whose status is approved or denied.\<close>

definition terminal_status :: "net_result \<Rightarrow> bool" where
  "terminal_status res =
     (case res of
        NetJson (JDict status_data) \<Rightarrow>
          dict_get status_data ''status'' (JStr '''')
            \<in> {JStr ''approved'', JStr ''allow'', JStr ''denied'', JStr ''deny''}
      | _ \<Rightarrow> False)"

definition approved_status :: "net_result \<Rightarrow> bool" where
  "approved_status res =
     (case res of
        NetJson (JDict status_data) \<Rightarrow>
          dict_get status_data ''status'' (JStr '''') \<in> {JStr ''approved'', JStr ''allow''}
      | _ \<Rightarrow> False)"

text \<open>The decision a response dict stands for: \<^verbatim>\<open>resp_data.get("decision", "allow")\<close>.\<close>

definition decision_of :: "pydict \<Rightarrow> jval" where
  "decision_of resp_data = dict_get resp_data ''decision'' (JStr ''allow'')"

text \<open>The effects of \<open>k\<close> polling attempts for a request id: a sleep, then the status request.\<close>

definition poll_effects :: "nat \<Rightarrow> jval \<Rightarrow> effect list" where
  "poll_effects k request_id = concat (replicate k [Sleep poll_interval, GetStatus request_id])"

text \<open>The cache check finds no live entry under the key: none at all, or an expired one.\<close>

definition cache_miss :: "cache \<Rightarrow> ckey \<Rightarrow> real \<Rightarrow> real \<Rightarrow> bool" where
  "cache_miss c k now ttl =
     (case map_of c k of None \<Rightarrow> True | Some entry \<Rightarrow> \<not> (now - snd entry < ttl))"

text \<open>The request body of an SDK call, with the defaults resolved as \<^verbatim>\<open>evaluate\<close> does.\<close>

definition sdk_call_body ::
  "sdk_client \<Rightarrow> env \<Rightarrow> string \<Rightarrow> string \<Rightarrow> pydict option \<Rightarrow> pydict option \<Rightarrow> string option
   \<Rightarrow> string list option \<Rightarrow> string option \<Rightarrow> string option \<Rightarrow> pydict"
where
  "sdk_call_body c e action_type action_name arguments destination identity_name identity_roles
                 protocol framework =
     sdk_request_body action_type action_name (sdk_proto c protocol)
       (sdk_identity_name e identity_name) (sdk_identity_roles e identity_roles)
       framework arguments destination"

text \<open>Every cached response stands for an allow decision.\<close>

definition allow_only :: "cache \<Rightarrow> bool" where
  "allow_only c = list_all (\<lambda>entry. decision_of (fst (snd entry)) = JStr ''allow'') c"

text \<open>The evaluation request of this environment fails.\<close>

definition transport_down :: "env \<Rightarrow> bool" where
  "transport_down e = (case post_result e of NetError exc \<Rightarrow> True | NetJson resp \<Rightarrow> False)"

text \<open>A call ended in ServerUnreachableError, or in PermissionError.\<close>

definition raised_unreachable :: "error + pydict \<Rightarrow> bool" where
  "raised_unreachable r = (case r of Inl (ServerUnreachableError msg) \<Rightarrow> True | _ \<Rightarrow> False)"

definition raised_permission :: "error + pydict \<Rightarrow> bool" where
  "raised_permission r = (case r of Inl (PermissionError msg) \<Rightarrow> True | _ \<Rightarrow> False)"

section \<open>Concrete clients, responses and environments\<close>

text \<open>
  Clients as their constructors leave them (empty cache, empty audit buffer, TTL 5, at most 1000
  entries), and the documents of tests/test_client.py.
\<close>

definition fresh_sdk_client :: "string \<Rightarrow> sdk_client" where
  "fresh_sdk_client fail_mode =
     \<lparr>sdk_default_protocol = ''sdk'', sdk_fail_mode = fail_mode, sdk_cache_ttl = 5,
      sdk_cache_max_size = 1000, sdk_cache = []\<rparr>"

definition fresh_rt_client :: "string \<Rightarrow> rt_client" where
  "fresh_rt_client fail_mode =
     \<lparr>rt_agent_id = ''agent-1'', rt_cache_ttl = 5, rt_framework = '''', rt_fail_mode = fail_mode,
      rt_cache = [], rt_audit_buffer = []\<rparr>"

definition no_environ :: "string \<Rightarrow> string option" where
  "no_environ name = None"

definition env_at :: "real \<Rightarrow> net_result \<Rightarrow> (nat \<Rightarrow> net_result) \<Rightarrow> env" where
  "env_at now res polls =
     \<lparr>now_check = now, post_result = res, poll_results = polls, now_store = now,
      now_audit = now, environ = no_environ\<rparr>"

definition pending_doc :: net_result where
  "pending_doc = NetJson (JDict [(''request_id'', JStr ''req-approval-1''),
                                 (''status'', JStr ''pending'')])"

definition approved_doc :: net_result where
  "approved_doc = NetJson (JDict [(''request_id'', JStr ''req-approval-1''),
                                  (''status'', JStr ''approved'')])"

definition always_pending :: "nat \<Rightarrow> net_result" where
  "always_pending i = pending_doc"

definition pending_pending_approved :: "nat \<Rightarrow> net_result" where
  "pending_pending_approved i = (if i < 2 then pending_doc else approved_doc)"

definition connection_refused :: net_result where
  "connection_refused = NetError ''Connection refused''"

definition approval_required_doc :: pydict where
  "approval_required_doc =
     [(''decision'', JStr ''approval_required''),
      (''rule_id'', JStr ''rule-approval''),
      (''rule_name'', JStr ''needs-approval''),
      (''reason'', JStr ''requires human approval''),
      (''request_id'', JStr ''req-approval-1''),
      (''latency_ms'', JInt 3)]"

definition allow_doc :: pydict where
  "allow_doc =
     [(''decision'', JStr ''allow''),
      (''rule_id'', JStr ''''),
      (''reason'', JStr ''''),
      (''request_id'', JStr ''req-cache''),
      (''latency_ms'', JInt 1)]"

definition deny_doc :: pydict where
  "deny_doc =
     [(''decision'', JStr ''deny''),
      (''rule_id'', JStr ''rule-1''),
      (''rule_name'', JStr ''block-rm''),
      (''reason'', JStr ''rm is blocked''),
      (''request_id'', JStr ''req-456''),
      (''latency_ms'', JInt 1)]"

definition approval_without_id_doc :: pydict where
  "approval_without_id_doc =
     [(''decision'', JStr ''approval_required''),
      (''rule_id'', JStr ''rule-approval''),
      (''request_id'', JStr '''')]"

definition undecided_doc :: pydict where
  "undecided_doc = [(''rule_id'', JStr ''rule-1''), (''reason'', JStr ''rm is blocked'')]"

definition unknown_decision_doc :: pydict where
  "unknown_decision_doc = [(''decision'', JStr ''block''), (''reason'', JStr ''rm is blocked'')]"

section \<open>Cache key: order of the arguments\<close>

lemma filter_same_key_singleton:
  "distinct (map fst xs) \<Longrightarrow> k \<in> set xs \<Longrightarrow> filter (\<lambda>x. fst k = fst x) xs = [k]"
proof (induction xs)
  case Nil
  then show ?case by simp
next
  case (Cons a xs)
  show ?case
  proof (cases "k = a")
    case True
    have "filter (\<lambda>x. fst a = fst x) xs = []"
      using Cons.prems(1) by (auto simp: filter_empty_conv image_iff)
    with True show ?thesis by simp
  next
    case False
    with Cons.prems have kin: "k \<in> set xs" by simp
    then have "fst k \<in> fst ` set xs" by (rule imageI)
    moreover from Cons.prems(1) have "fst a \<notin> fst ` set xs" by simp
    ultimately have "fst k \<noteq> fst a" by metis
    with Cons.IH Cons.prems(1) kin show ?thesis by simp
  qed
qed

lemma sorted_items_permutation:
  assumes dA: "distinct (map fst A)" and dB: "distinct (map fst B)" and eq: "set A = set B"
  shows "sorted_items A = sorted_items B"
proof -
  let ?ys = "sort_key fst B"
  have distA: "distinct A" and distB: "distinct B"
    using dA dB by (simp_all add: distinct_map)
  have m: "mset ?ys = mset A"
    using distA distB eq by (simp add: set_eq_iff_mset_eq_distinct)
  have dys: "distinct (map fst ?ys)"
    using dB by (simp add: distinct_map inj_on_def)
  have f: "filter (\<lambda>x. fst k = fst x) ?ys = filter (\<lambda>x. fst k = fst x) A" if "k \<in> set ?ys" for k
  proof -
    from that eq have "k \<in> set A" by simp
    then show ?thesis
      using filter_same_key_singleton [OF dys that] filter_same_key_singleton [OF dA] by simp
  qed
  have "sort_key fst A = ?ys"
    by (rule properties_for_sort_key [OF m f]) simp_all
  then show ?thesis by (simp add: sorted_items_def)
qed

text \<open>
  C7. Two argument dicts with the same entries, inserted in a different order, give the same
  cache key for the same action type and action name.
\<close>

theorem cache_key_insertion_order:
  assumes "distinct (map fst A)" and "distinct (map fst B)" and "set A = set B"
  shows "cache_key repr action_type action_name (Some A)
       = cache_key repr action_type action_name (Some B)"
proof (cases "A = []")
  case True
  with assms(3) have "B = []" by simp
  with True show ?thesis by simp
next
  case False
  with assms(3) have "B \<noteq> []" by auto
  with False sorted_items_permutation [OF assms] show ?thesis
    by (simp add: cache_key_def)
qed
theorem cache_key_insertion_order_witness:
  "distinct (map fst [(''args'', JList [JStr ''-l'']), (''full_command'', JStr ''ls -l'')])
   \<and> distinct (map fst [(''full_command'', JStr ''ls -l''), (''args'', JList [JStr ''-l''])])
   \<and> set [(''args'', JList [JStr ''-l'']), (''full_command'', JStr ''ls -l'')]
     = set [(''full_command'', JStr ''ls -l''), (''args'', JList [JStr ''-l''])]
   \<and> cache_key repr_items ''command_exec'' ''ls''
        (Some [(''args'', JList [JStr ''-l'']), (''full_command'', JStr ''ls -l'')])
     = cache_key repr_items ''command_exec'' ''ls''
        (Some [(''full_command'', JStr ''ls -l''), (''args'', JList [JStr ''-l''])])"
proof -
  have d1: "distinct (map fst [(''args'', JList [JStr ''-l'']), (''full_command'', JStr ''ls -l'')])"
    by simp
  have d2: "distinct (map fst [(''full_command'', JStr ''ls -l''), (''args'', JList [JStr ''-l''])])"
    by simp
  have s: "set [(''args'', JList [JStr ''-l'']), (''full_command'', JStr ''ls -l'')]
         = set [(''full_command'', JStr ''ls -l''), (''args'', JList [JStr ''-l''])]"
    by (simp add: insert_commute)
  show ?thesis
    using d1 d2 s cache_key_insertion_order [OF d1 d2 s, of repr_items "''command_exec''" "''ls''"]
    by blast
qed

section \<open>The poller: attempts and traces\<close>

lemma str_nat_60: "str_nat (max_polls * poll_interval) = ''60''"
  by code_simp

lemma sdk_poll_attempt_not_terminal:
  "\<not> terminal_status res \<Longrightarrow> sdk_poll_attempt res request_id orig raise_on_deny = None"
  by (auto simp: terminal_status_def sdk_poll_attempt_def Let_def
           split: net_result.splits jval.splits)

lemma rt_poll_attempt_not_terminal:
  "\<not> terminal_status res \<Longrightarrow> rt_poll_attempt res request_id orig = None"
  by (auto simp: terminal_status_def rt_poll_attempt_def Let_def
           split: net_result.splits jval.splits)

lemma sdk_poll_attempt_approved:
  "approved_status res \<Longrightarrow>
   sdk_poll_attempt res request_id orig raise_on_deny =
     Some (Inr [(''decision'', JStr ''allow''),
                (''reason'', JStr ''approved''),
                (''request_id'', request_id),
                (''rule_id'', dict_get orig ''rule_id'' (JStr '''')),
                (''rule_name'', dict_get orig ''rule_name'' (JStr '''')),
                (''help_url'', JStr ''''),
                (''help_text'', JStr ''''),
                (''latency_ms'', dict_get orig ''latency_ms'' (JInt 0))])"
  by (auto simp: approved_status_def sdk_poll_attempt_def Let_def
           split: net_result.splits jval.splits)

lemma rt_poll_attempt_approved:
  "approved_status res \<Longrightarrow>
   rt_poll_attempt res request_id orig =
     Some [(''decision'', JStr ''allow''),
           (''reason'', JStr ''approved''),
           (''request_id'', request_id)]"
  by (auto simp: approved_status_def rt_poll_attempt_def Let_def
           split: net_result.splits jval.splits)

text \<open>The effects of \<open>k\<close> attempts: a sleep before each status request.\<close>

lemma sdk_poll_loop_exhausted:
  "(\<And>j. j < n \<Longrightarrow> \<not> terminal_status (polls (i + j))) \<Longrightarrow>
   sdk_poll_loop polls request_id orig raise_on_deny i n =
     (None, concat (replicate n [Sleep poll_interval, GetStatus request_id]))"
proof (induction n arbitrary: i)
  case 0
  show ?case by simp
next
  case (Suc n)
  have first: "\<not> terminal_status (polls i)"
    using Suc.prems [of 0] by simp
  have rest: "\<not> terminal_status (polls (Suc i + j))" if "j < n" for j
    using Suc.prems [of "Suc j"] that by simp
  show ?case
    by (simp add: sdk_poll_attempt_not_terminal [OF first] Suc.IH [OF rest])
qed

lemma rt_poll_loop_exhausted:
  "(\<And>j. j < n \<Longrightarrow> \<not> terminal_status (polls (i + j))) \<Longrightarrow>
   rt_poll_loop polls request_id orig i n =
     (None, concat (replicate n [Sleep poll_interval, GetStatus request_id]))"
proof (induction n arbitrary: i)
  case 0
  show ?case by simp
next
  case (Suc n)
  have first: "\<not> terminal_status (polls i)"
    using Suc.prems [of 0] by simp
  have rest: "\<not> terminal_status (polls (Suc i + j))" if "j < n" for j
    using Suc.prems [of "Suc j"] that by simp
  show ?case
    by (simp add: rt_poll_attempt_not_terminal [OF first] Suc.IH [OF rest])
qed

lemma sdk_poll_loop_answer_at:
  "m < n \<Longrightarrow> (\<And>j. j < m \<Longrightarrow> \<not> terminal_status (polls (i + j))) \<Longrightarrow>
   sdk_poll_attempt (polls (i + m)) request_id orig raise_on_deny = Some r \<Longrightarrow>
   sdk_poll_loop polls request_id orig raise_on_deny i n =
     (Some r, concat (replicate (Suc m) [Sleep poll_interval, GetStatus request_id]))"
proof (induction m arbitrary: i n)
  case 0
  then obtain n' where "n = Suc n'" by (cases n) auto
  with 0 show ?case by simp
next
  case (Suc m)
  then obtain n' where n: "n = Suc n'" and mn: "m < n'" by (cases n) auto
  have first: "\<not> terminal_status (polls i)"
    using Suc.prems(2) [of 0] by simp
  have rest: "\<not> terminal_status (polls (Suc i + j))" if "j < m" for j
    using Suc.prems(2) [of "Suc j"] that by simp
  have ans: "sdk_poll_attempt (polls (Suc i + m)) request_id orig raise_on_deny = Some r"
    using Suc.prems(3) by simp
  show ?case
    by (simp add: n sdk_poll_attempt_not_terminal [OF first] Suc.IH [OF mn rest ans])
qed

lemma rt_poll_loop_answer_at:
  "m < n \<Longrightarrow> (\<And>j. j < m \<Longrightarrow> \<not> terminal_status (polls (i + j))) \<Longrightarrow>
   rt_poll_attempt (polls (i + m)) request_id orig = Some r \<Longrightarrow>
   rt_poll_loop polls request_id orig i n =
     (Some r, concat (replicate (Suc m) [Sleep poll_interval, GetStatus request_id]))"
proof (induction m arbitrary: i n)
  case 0
  then obtain n' where "n = Suc n'" by (cases n) auto
  with 0 show ?case by simp
next
  case (Suc m)
  then obtain n' where n: "n = Suc n'" and mn: "m < n'" by (cases n) auto
  have first: "\<not> terminal_status (polls i)"
    using Suc.prems(2) [of 0] by simp
  have rest: "\<not> terminal_status (polls (Suc i + j))" if "j < m" for j
    using Suc.prems(2) [of "Suc j"] that by simp
  have ans: "rt_poll_attempt (polls (Suc i + m)) request_id orig = Some r"
    using Suc.prems(3) by simp
  show ?case
    by (simp add: n rt_poll_attempt_not_terminal [OF first] Suc.IH [OF mn rest ans])
qed

lemma sdk_poll_loop_trace:
  "\<exists>k\<le>n. snd (sdk_poll_loop polls request_id orig raise_on_deny i n)
            = concat (replicate k [Sleep poll_interval, GetStatus request_id])
          \<and> (0 < n \<longrightarrow> 0 < k)"
proof (induction n arbitrary: i)
  case 0
  show ?case by simp
next
  case (Suc n)
  show ?case
  proof (cases "sdk_poll_attempt (polls i) request_id orig raise_on_deny")
    case (Some r)
    then have "snd (sdk_poll_loop polls request_id orig raise_on_deny i (Suc n))
             = concat (replicate 1 [Sleep poll_interval, GetStatus request_id])"
      by simp
    then show ?thesis by (intro exI [of _ 1]) simp
  next
    case None
    from Suc.IH [of "Suc i"] obtain k where k: "k \<le> n"
      and tr: "snd (sdk_poll_loop polls request_id orig raise_on_deny (Suc i) n)
             = concat (replicate k [Sleep poll_interval, GetStatus request_id])"
      by blast
    from None tr have "snd (sdk_poll_loop polls request_id orig raise_on_deny i (Suc n))
             = concat (replicate (Suc k) [Sleep poll_interval, GetStatus request_id])"
      by (auto split: prod.splits)
    with k show ?thesis by (intro exI [of _ "Suc k"]) simp
  qed
qed

lemma rt_poll_loop_trace:
  "\<exists>k\<le>n. snd (rt_poll_loop polls request_id orig i n)
            = concat (replicate k [Sleep poll_interval, GetStatus request_id])
          \<and> (0 < n \<longrightarrow> 0 < k)"
proof (induction n arbitrary: i)
  case 0
  show ?case by simp
next
  case (Suc n)
  show ?case
  proof (cases "rt_poll_attempt (polls i) request_id orig")
    case (Some r)
    then have "snd (rt_poll_loop polls request_id orig i (Suc n))
             = concat (replicate 1 [Sleep poll_interval, GetStatus request_id])"
      by simp
    then show ?thesis by (intro exI [of _ 1]) simp
  next
    case None
    from Suc.IH [of "Suc i"] obtain k where k: "k \<le> n"
      and tr: "snd (rt_poll_loop polls request_id orig (Suc i) n)
             = concat (replicate k [Sleep poll_interval, GetStatus request_id])"
      by blast
    from None tr have "snd (rt_poll_loop polls request_id orig i (Suc n))
             = concat (replicate (Suc k) [Sleep poll_interval, GetStatus request_id])"
      by (auto split: prod.splits)
    with k show ?thesis by (intro exI [of _ "Suc k"]) simp
  qed
qed

section \<open>The cache check and the two paths of evaluate\<close>

lemma map_of_od_del: "map_of (od_del k c) k = None"
  by (induction c) (auto simp: od_del_def)

lemma od_del_absent: "map_of c k = None \<Longrightarrow> od_del k c = c"
  by (induction c) (auto simp: od_del_def split: if_splits)

lemma not_in_od_del: "(k, v) \<notin> set (od_del k c)"
  by (auto simp: od_del_def)

lemma cache_lookup_miss:
  "cache_miss c k now ttl \<Longrightarrow> cache_lookup c k now ttl = (None, od_del k c)"
  by (auto simp: cache_miss_def cache_lookup_def od_del_absent split: option.splits)

lemma cache_lookup_hit:
  "map_of c k = Some (d, t) \<Longrightarrow> now - t < ttl \<Longrightarrow>
   cache_lookup c k now ttl = (Some d, move_to_end k (d, t) c)"
  by (simp add: cache_lookup_def)

lemma cache_lookup_expired:
  "map_of c k = Some (d, t) \<Longrightarrow> ttl \<le> now - t \<Longrightarrow> cache_miss c k now ttl"
  by (simp add: cache_miss_def)

lemma sdk_evaluate_hit:
  "map_of (sdk_cache c) (cache_key repr action_type action_name arguments) = Some (d, t) \<Longrightarrow>
   now_check e - t < sdk_cache_ttl c \<Longrightarrow>
   sdk_evaluate repr c e action_type action_name arguments destination identity_name
     identity_roles protocol framework raise_on_deny =
     (Inr d,
      c\<lparr>sdk_cache := move_to_end (cache_key repr action_type action_name arguments) (d, t)
                       (sdk_cache c)\<rparr>,
      [])"
  by (simp add: sdk_evaluate_def Let_def cache_lookup_hit)

lemma rt_evaluate_hit:
  "map_of (rt_cache c) (cache_key repr action_type action_name arguments) = Some (d, t) \<Longrightarrow>
   now_check e - t < rt_cache_ttl c \<Longrightarrow>
   rt_evaluate repr c e action_type action_name arguments destination =
     (Inr d,
      c\<lparr>rt_cache := move_to_end (cache_key repr action_type action_name arguments) (d, t)
                      (rt_cache c)\<rparr>,
      [])"
  by (simp add: rt_evaluate_def Let_def cache_lookup_hit)

lemma sdk_evaluate_miss:
  "cache_miss (sdk_cache c) (cache_key repr action_type action_name arguments) (now_check e)
     (sdk_cache_ttl c) \<Longrightarrow>
   sdk_evaluate repr c e action_type action_name arguments destination identity_name
     identity_roles protocol framework raise_on_deny =
     (case (case post_result e of
              NetError exc \<Rightarrow>
                sdk_on_failure
                  (c\<lparr>sdk_cache := od_del (cache_key repr action_type action_name arguments)
                                    (sdk_cache c)\<rparr>) exc
            | NetJson resp \<Rightarrow>
                sdk_on_response
                  (c\<lparr>sdk_cache := od_del (cache_key repr action_type action_name arguments)
                                    (sdk_cache c)\<rparr>)
                  e (cache_key repr action_type action_name arguments) resp raise_on_deny) of
        (r, c', tr) \<Rightarrow>
          (r, c', PostEvaluate (sdk_call_body c e action_type action_name arguments destination
                                 identity_name identity_roles protocol framework) # tr))"
  by (simp add: sdk_evaluate_def Let_def cache_lookup_miss sdk_call_body_def)

lemma rt_evaluate_miss:
  "cache_miss (rt_cache c) (cache_key repr action_type action_name arguments) (now_check e)
     (rt_cache_ttl c) \<Longrightarrow>
   rt_evaluate repr c e action_type action_name arguments destination =
     (case (case post_result e of
              NetError exc \<Rightarrow>
                rt_on_failure
                  (c\<lparr>rt_cache := od_del (cache_key repr action_type action_name arguments)
                                   (rt_cache c)\<rparr>)
                  e action_type action_name arguments exc
            | NetJson resp \<Rightarrow>
                rt_on_response
                  (c\<lparr>rt_cache := od_del (cache_key repr action_type action_name arguments)
                                   (rt_cache c)\<rparr>)
                  e (cache_key repr action_type action_name arguments) resp) of
        (r, c', tr) \<Rightarrow>
          (r, c', PostEvaluate (rt_request_body c action_type action_name arguments destination)
                  # tr))"
  by (simp add: rt_evaluate_def Let_def cache_lookup_miss rt_request_body_def)

lemma sdk_poll_approval_exhausted:
  assumes "\<And>i. i < max_polls \<Longrightarrow> \<not> terminal_status (polls i)"
  shows "sdk_poll_approval polls request_id orig raise_on_deny =
     (Inl (ApprovalTimeoutError ''Approval timed out after 60s'' request_id),
      poll_effects max_polls request_id)"
proof -
  have "sdk_poll_loop polls request_id orig raise_on_deny 0 max_polls =
          (None, concat (replicate max_polls [Sleep poll_interval, GetStatus request_id]))"
    by (rule sdk_poll_loop_exhausted) (simp add: assms)
  then show ?thesis
    by (simp only: sdk_poll_approval_def poll_effects_def str_nat_60 prod.case option.case
                   append.simps)
qed

lemma rt_poll_approval_exhausted:
  assumes "\<And>i. i < max_polls \<Longrightarrow> \<not> terminal_status (polls i)"
  shows "rt_poll_approval polls request_id orig =
     ([(''decision'', JStr ''deny''),
       (''reason'', JStr ''approval timeout after 60s''),
       (''request_id'', request_id)],
      poll_effects max_polls request_id)"
proof -
  have "rt_poll_loop polls request_id orig 0 max_polls =
          (None, concat (replicate max_polls [Sleep poll_interval, GetStatus request_id]))"
    by (rule rt_poll_loop_exhausted) (simp add: assms)
  then show ?thesis
    by (simp only: rt_poll_approval_def poll_effects_def str_nat_60 prod.case option.case
                   append.simps)
qed

lemma sdk_poll_approval_approved_at:
  assumes "m < max_polls" and "\<And>j. j < m \<Longrightarrow> \<not> terminal_status (polls j)"
    and "approved_status (polls m)"
  shows "sdk_poll_approval polls request_id orig raise_on_deny =
     (Inr [(''decision'', JStr ''allow''),
           (''reason'', JStr ''approved''),
           (''request_id'', request_id),
           (''rule_id'', dict_get orig ''rule_id'' (JStr '''')),
           (''rule_name'', dict_get orig ''rule_name'' (JStr '''')),
           (''help_url'', JStr ''''),
           (''help_text'', JStr ''''),
           (''latency_ms'', dict_get orig ''latency_ms'' (JInt 0))],
      poll_effects (Suc m) request_id)"
proof -
  have "sdk_poll_loop polls request_id orig raise_on_deny 0 max_polls =
          (Some (Inr [(''decision'', JStr ''allow''),
                      (''reason'', JStr ''approved''),
                      (''request_id'', request_id),
                      (''rule_id'', dict_get orig ''rule_id'' (JStr '''')),
                      (''rule_name'', dict_get orig ''rule_name'' (JStr '''')),
                      (''help_url'', JStr ''''),
                      (''help_text'', JStr ''''),
                      (''latency_ms'', dict_get orig ''latency_ms'' (JInt 0))]),
           concat (replicate (Suc m) [Sleep poll_interval, GetStatus request_id]))"
  proof (rule sdk_poll_loop_answer_at [OF assms(1)])
    show "\<not> terminal_status (polls (0 + j))" if "j < m" for j
      using assms(2) that by simp
    show "sdk_poll_attempt (polls (0 + m)) request_id orig raise_on_deny = Some (Inr [(''decision'', JStr ''allow''),
                      (''reason'', JStr ''approved''),
                      (''request_id'', request_id),
                      (''rule_id'', dict_get orig ''rule_id'' (JStr '''')),
                      (''rule_name'', dict_get orig ''rule_name'' (JStr '''')),
                      (''help_url'', JStr ''''),
                      (''help_text'', JStr ''''),
                      (''latency_ms'', dict_get orig ''latency_ms'' (JInt 0))])"
      using sdk_poll_attempt_approved [OF assms(3)] by simp
  qed
  then show ?thesis
    by (simp only: sdk_poll_approval_def poll_effects_def prod.case option.case)
qed

lemma rt_poll_approval_approved_at:
  assumes "m < max_polls" and "\<And>j. j < m \<Longrightarrow> \<not> terminal_status (polls j)"
    and "approved_status (polls m)"
  shows "rt_poll_approval polls request_id orig =
     ([(''decision'', JStr ''allow''),
       (''reason'', JStr ''approved''),
       (''request_id'', request_id)],
      poll_effects (Suc m) request_id)"
proof -
  have "rt_poll_loop polls request_id orig 0 max_polls =
          (Some [(''decision'', JStr ''allow''),
                 (''reason'', JStr ''approved''),
                 (''request_id'', request_id)],
           concat (replicate (Suc m) [Sleep poll_interval, GetStatus request_id]))"
  proof (rule rt_poll_loop_answer_at [OF assms(1)])
    show "\<not> terminal_status (polls (0 + j))" if "j < m" for j
      using assms(2) that by simp
    show "rt_poll_attempt (polls (0 + m)) request_id orig =
            Some [(''decision'', JStr ''allow''),
                  (''reason'', JStr ''approved''),
                  (''request_id'', request_id)]"
      using rt_poll_attempt_approved [OF assms(3)] by simp
  qed
  then show ?thesis
    by (simp only: rt_poll_approval_def poll_effects_def prod.case option.case)
qed

lemma max_polls_pos: "0 < max_polls"
  by (simp add: max_polls_def)

lemma sdk_poll_approval_snd:
  "snd (sdk_poll_approval polls request_id orig raise_on_deny)
     = snd (sdk_poll_loop polls request_id orig raise_on_deny 0 max_polls)"
proof (cases "sdk_poll_loop polls request_id orig raise_on_deny 0 max_polls")
  case (Pair r tr)
  then show ?thesis
    by (cases r) (simp_all only: sdk_poll_approval_def prod.case option.case snd_conv)
qed

lemma rt_poll_approval_snd:
  "snd (rt_poll_approval polls request_id orig)
     = snd (rt_poll_loop polls request_id orig 0 max_polls)"
proof (cases "rt_poll_loop polls request_id orig 0 max_polls")
  case (Pair r tr)
  then show ?thesis
    by (cases r) (simp_all only: rt_poll_approval_def prod.case option.case snd_conv)
qed

lemma sdk_poll_approval_trace:
  "\<exists>k. 1 \<le> k \<and> k \<le> max_polls
      \<and> snd (sdk_poll_approval polls request_id orig raise_on_deny) = poll_effects k request_id"
proof -
  have "\<exists>k\<le>max_polls. snd (sdk_poll_loop polls request_id orig raise_on_deny 0 max_polls)
            = concat (replicate k [Sleep poll_interval, GetStatus request_id])
          \<and> (0 < max_polls \<longrightarrow> 0 < k)"
    by (rule sdk_poll_loop_trace)
  then obtain k where k: "k \<le> max_polls"
    and tr: "snd (sdk_poll_loop polls request_id orig raise_on_deny 0 max_polls)
           = concat (replicate k [Sleep poll_interval, GetStatus request_id])"
    and pos: "0 < max_polls \<longrightarrow> 0 < k"
    by (elim exE conjE)
  from pos max_polls_pos have "1 \<le> k" by simp
  moreover have "snd (sdk_poll_approval polls request_id orig raise_on_deny)
      = poll_effects k request_id"
    by (simp only: sdk_poll_approval_snd tr poll_effects_def)
  ultimately have "1 \<le> k \<and> k \<le> max_polls
      \<and> snd (sdk_poll_approval polls request_id orig raise_on_deny) = poll_effects k request_id"
    using k by (intro conjI)
  then show ?thesis by (rule exI)
qed

lemma rt_poll_approval_trace:
  "\<exists>k. 1 \<le> k \<and> k \<le> max_polls
      \<and> snd (rt_poll_approval polls request_id orig) = poll_effects k request_id"
proof -
  have "\<exists>k\<le>max_polls. snd (rt_poll_loop polls request_id orig 0 max_polls)
            = concat (replicate k [Sleep poll_interval, GetStatus request_id])
          \<and> (0 < max_polls \<longrightarrow> 0 < k)"
    by (rule rt_poll_loop_trace)
  then obtain k where k: "k \<le> max_polls"
    and tr: "snd (rt_poll_loop polls request_id orig 0 max_polls)
           = concat (replicate k [Sleep poll_interval, GetStatus request_id])"
    and pos: "0 < max_polls \<longrightarrow> 0 < k"
    by (elim exE conjE)
  from pos max_polls_pos have "1 \<le> k" by simp
  moreover have "snd (rt_poll_approval polls request_id orig) = poll_effects k request_id"
    by (simp only: rt_poll_approval_snd tr poll_effects_def)
  ultimately have "1 \<le> k \<and> k \<le> max_polls
      \<and> snd (rt_poll_approval polls request_id orig) = poll_effects k request_id"
    using k by (intro conjI)
  then show ?thesis by (rule exI)
qed

section \<open>The paths through a parsed response\<close>

lemma sdk_on_response_poll:
  "decision_of resp_data = JStr ''approval_required'' \<Longrightarrow>
   truthy (dict_get resp_data ''request_id'' (JStr '''')) \<Longrightarrow>
   sdk_on_response c e ck (JDict resp_data) raise_on_deny =
     (fst (sdk_poll_approval (poll_results e) (dict_get resp_data ''request_id'' (JStr ''''))
             resp_data raise_on_deny),
      c,
      snd (sdk_poll_approval (poll_results e) (dict_get resp_data ''request_id'' (JStr ''''))
             resp_data raise_on_deny))"
  by (simp add: sdk_on_response_def decision_of_def Let_def split: prod.splits)

lemma rt_on_response_poll:
  "decision_of resp_data = JStr ''approval_required'' \<Longrightarrow>
   truthy (dict_get resp_data ''request_id'' (JStr '''')) \<Longrightarrow>
   rt_on_response c e ck (JDict resp_data) =
     (Inr (fst (rt_poll_approval (poll_results e) (dict_get resp_data ''request_id'' (JStr ''''))
                  resp_data)),
      c,
      snd (rt_poll_approval (poll_results e) (dict_get resp_data ''request_id'' (JStr ''''))
             resp_data))"
  by (simp add: rt_on_response_def decision_of_def Let_def split: prod.splits)

lemma sdk_on_response_no_request_id:
  "decision_of resp_data = JStr ''approval_required'' \<Longrightarrow>
   \<not> truthy (dict_get resp_data ''request_id'' (JStr '''')) \<Longrightarrow>
   sdk_on_response c e ck (JDict resp_data) raise_on_deny = (Inr resp_data, c, [])"
  by (simp add: sdk_on_response_def decision_of_def Let_def)

lemma rt_on_response_no_request_id:
  "decision_of resp_data = JStr ''approval_required'' \<Longrightarrow>
   \<not> truthy (dict_get resp_data ''request_id'' (JStr '''')) \<Longrightarrow>
   rt_on_response c e ck (JDict resp_data) = (Inr resp_data, c, [])"
  by (simp add: rt_on_response_def decision_of_def Let_def)

lemma sdk_on_response_deny:
  "decision_of resp_data = JStr ''deny'' \<Longrightarrow>
   sdk_on_response c e ck (JDict resp_data) raise_on_deny =
     (if raise_on_deny
      then Inl (PolicyDeniedError (dict_get resp_data ''rule_id'' (JStr ''''))
                                  (dict_get resp_data ''rule_name'' (JStr ''''))
                                  (dict_get resp_data ''reason'' (JStr ''''))
                                  (dict_get resp_data ''help_url'' (JStr ''''))
                                  (dict_get resp_data ''help_text'' (JStr '''')))
      else Inr resp_data,
      c, [])"
  by (simp add: sdk_on_response_def decision_of_def Let_def)

lemma rt_on_response_deny:
  "decision_of resp_data = JStr ''deny'' \<Longrightarrow>
   rt_on_response c e ck (JDict resp_data) = (Inr resp_data, c, [])"
  by (simp add: rt_on_response_def decision_of_def Let_def)

lemma sdk_on_response_unknown:
  "decision_of resp_data \<noteq> JStr ''approval_required'' \<Longrightarrow>
   decision_of resp_data \<noteq> JStr ''allow'' \<Longrightarrow>
   decision_of resp_data \<noteq> JStr ''deny'' \<Longrightarrow>
   sdk_on_response c e ck (JDict resp_data) raise_on_deny = (Inr resp_data, c, [])"
  by (simp add: sdk_on_response_def decision_of_def Let_def)

lemma rt_on_response_unknown:
  "decision_of resp_data \<noteq> JStr ''approval_required'' \<Longrightarrow>
   decision_of resp_data \<noteq> JStr ''allow'' \<Longrightarrow>
   rt_on_response c e ck (JDict resp_data) = (Inr resp_data, c, [])"
  by (simp add: rt_on_response_def decision_of_def Let_def)

lemma sdk_on_response_allow:
  "decision_of resp_data = JStr ''allow'' \<Longrightarrow>
   sdk_on_response c e ck (JDict resp_data) raise_on_deny =
     (case fst (cache_store (sdk_cache c) ck resp_data (now_store e) (sdk_cache_max_size c)) of
        Some err \<Rightarrow> Inl err
      | None \<Rightarrow> Inr resp_data,
      c\<lparr>sdk_cache :=
           snd (cache_store (sdk_cache c) ck resp_data (now_store e) (sdk_cache_max_size c))\<rparr>,
      [])"
  by (simp add: sdk_on_response_def decision_of_def Let_def split: prod.splits option.splits)

lemma rt_on_response_allow:
  "decision_of resp_data = JStr ''allow'' \<Longrightarrow>
   rt_on_response c e ck (JDict resp_data) =
     (case fst (cache_store (rt_cache c) ck resp_data (now_store e) rt_cache_max) of
        Some err \<Rightarrow> Inl err
      | None \<Rightarrow> Inr resp_data,
      c\<lparr>rt_cache := snd (cache_store (rt_cache c) ck resp_data (now_store e) rt_cache_max)\<rparr>,
      [])"
  by (simp add: rt_on_response_def decision_of_def Let_def split: prod.splits option.splits)

section \<open>Facts about the concrete inputs\<close>

lemma fresh_sdk_miss:
  "cache_miss (sdk_cache (fresh_sdk_client fail_mode)) k now
     (sdk_cache_ttl (fresh_sdk_client fail_mode))"
  by (simp add: fresh_sdk_client_def cache_miss_def)

lemma fresh_rt_miss:
  "cache_miss (rt_cache (fresh_rt_client fail_mode)) k now
     (rt_cache_ttl (fresh_rt_client fail_mode))"
  by (simp add: fresh_rt_client_def cache_miss_def)

lemma env_at_simps:
  "now_check (env_at now res polls) = now"
  "post_result (env_at now res polls) = res"
  "poll_results (env_at now res polls) = polls"
  "now_store (env_at now res polls) = now"
  "now_audit (env_at now res polls) = now"
  "environ (env_at now res polls) = no_environ"
  by (simp_all add: env_at_def)

lemma approval_required_doc_decision:
  "decision_of approval_required_doc = JStr ''approval_required''"
  by (simp add: decision_of_def dict_get_def approval_required_doc_def)

lemma approval_required_doc_request_id:
  "dict_get approval_required_doc ''request_id'' (JStr '''') = JStr ''req-approval-1''"
  by (simp add: dict_get_def approval_required_doc_def)

lemma approval_required_doc_truthy:
  "truthy (dict_get approval_required_doc ''request_id'' (JStr ''''))"
  by (simp add: approval_required_doc_request_id)

lemma pending_doc_not_terminal: "\<not> terminal_status pending_doc"
  by (simp add: pending_doc_def terminal_status_def dict_get_def)

lemma approved_doc_approved: "approved_status approved_doc"
  by (simp add: approved_doc_def approved_status_def dict_get_def)

lemma pending_pending_approved_simps:
  "\<not> terminal_status (pending_pending_approved 0)"
  "\<not> terminal_status (pending_pending_approved 1)"
  "approved_status (pending_pending_approved 2)"
  by (simp_all add: pending_pending_approved_def pending_doc_not_terminal approved_doc_approved)

lemma always_pending_not_terminal: "\<not> terminal_status (always_pending i)"
  by (simp add: always_pending_def pending_doc_not_terminal)

lemma fresh_sdk_body:
  "sdk_call_body (fresh_sdk_client fail_mode) (env_at now res polls) action_type action_name
     None None None None None None =
   [(''action_type'', JStr action_type),
    (''action_name'', JStr action_name),
    (''protocol'', JStr ''sdk''),
    (''identity_name'', JStr ''sdk-client''),
    (''identity_roles'', JList [JStr ''agent''])]"
  by (simp add: sdk_call_body_def sdk_request_body_def sdk_proto_def sdk_identity_name_def
                sdk_identity_roles_def environ_get_def env_at_def no_environ_def
                fresh_sdk_client_def)

lemma fresh_rt_body:
  "rt_request_body (fresh_rt_client fail_mode) action_type action_name None None =
   [(''action_type'', JStr action_type),
    (''action_name'', JStr action_name),
    (''protocol'', JStr ''runtime''),
    (''framework'', JStr ''''),
    (''gateway'', JStr ''runtime''),
    (''arguments'', JDict []),
    (''identity_name'', JStr ''runtime-agent-1''),
    (''identity_roles'', JList [JStr ''agent''])]"
  by (simp add: rt_request_body_def fresh_rt_client_def)

lemma fresh_sdk_od_del:
  "(fresh_sdk_client fail_mode)\<lparr>sdk_cache := od_del k (sdk_cache (fresh_sdk_client fail_mode))\<rparr>
     = fresh_sdk_client fail_mode"
  by (simp add: fresh_sdk_client_def od_del_def)

lemma fresh_rt_od_del:
  "(fresh_rt_client fail_mode)\<lparr>rt_cache := od_del k (rt_cache (fresh_rt_client fail_mode))\<rparr>
     = fresh_rt_client fail_mode"
  by (simp add: fresh_rt_client_def od_del_def)

section \<open>Approval timeout\<close>

text \<open>
  C1, amended. When none of the 30 status requests yields a terminal status (each is pending,
  unknown, not an object, or fails and is swallowed), the poller makes exactly 30 attempts, each
  a sleep of 2 followed by the status request, and does not allow: the runtime client returns a
  deny decision with reason "approval timeout after 60s", and the SDK client raises
  ApprovalTimeoutError with message "Approval timed out after 60s", whatever raise_on_deny is.
\<close>

theorem approval_timeout_never_allows:
  assumes "\<forall>i<max_polls. \<not> terminal_status (polls i)"
  shows "rt_poll_approval polls request_id orig =
           ([(''decision'', JStr ''deny''),
             (''reason'', JStr ''approval timeout after 60s''),
             (''request_id'', request_id)],
            poll_effects 30 request_id)
       \<and> sdk_poll_approval polls request_id orig raise_on_deny =
           (Inl (ApprovalTimeoutError ''Approval timed out after 60s'' request_id),
            poll_effects 30 request_id)"
proof -
  have h: "\<not> terminal_status (polls i)" if "i < max_polls" for i
    using assms that by blast
  have m: "max_polls = 30" by (simp add: max_polls_def)
  show ?thesis
    using rt_poll_approval_exhausted [of polls request_id orig, OF h]
          sdk_poll_approval_exhausted [of polls request_id orig raise_on_deny, OF h]
    by (simp only: m)
qed

theorem approval_timeout_never_allows_witness:
  "\<not> terminal_status (always_pending 0)
   \<and> rt_poll_approval always_pending (JStr ''req-approval-1'') approval_required_doc =
       ([(''decision'', JStr ''deny''),
         (''reason'', JStr ''approval timeout after 60s''),
         (''request_id'', JStr ''req-approval-1'')],
        poll_effects 30 (JStr ''req-approval-1''))
   \<and> sdk_poll_approval always_pending (JStr ''req-approval-1'') approval_required_doc True =
       (Inl (ApprovalTimeoutError ''Approval timed out after 60s'' (JStr ''req-approval-1'')),
        poll_effects 30 (JStr ''req-approval-1''))"
proof -
  have np: "\<not> terminal_status (always_pending i)" for i
    by (simp add: always_pending_def pending_doc_def terminal_status_def dict_get_def)
  then have h: "\<forall>i<max_polls. \<not> terminal_status (always_pending i)"
    by blast
  from np [of 0]
       approval_timeout_never_allows [OF h, of "JStr ''req-approval-1''" approval_required_doc True]
  show ?thesis by (rule conjI)
qed

text \<open>
  The SDK poller on thirty pending answers, with raise_on_deny off: the call ends in
  ApprovalTimeoutError, not in a returned deny decision.
\<close>

theorem sdk_timeout_raises_counterexample:
  "fst (sdk_poll_approval always_pending (JStr ''req-approval-1'') approval_required_doc False)
     = Inl (ApprovalTimeoutError ''Approval timed out after 60s'' (JStr ''req-approval-1''))"
proof -
  have np: "\<not> terminal_status (always_pending i)" for i
    by (simp add: always_pending_def pending_doc_def terminal_status_def dict_get_def)
  have "sdk_poll_approval always_pending (JStr ''req-approval-1'') approval_required_doc False
      = (Inl (ApprovalTimeoutError ''Approval timed out after 60s'' (JStr ''req-approval-1'')),
         poll_effects max_polls (JStr ''req-approval-1''))"
    by (rule sdk_poll_approval_exhausted) (rule np)
  then show ?thesis
    by (simp only: fst_conv)
qed

section \<open>Approval polling through evaluate\<close>

lemma sdk_evaluate_poll:
  assumes "cache_miss (sdk_cache c) (cache_key repr action_type action_name arguments)
             (now_check e) (sdk_cache_ttl c)"
    and "post_result e = NetJson (JDict resp_data)"
    and "decision_of resp_data = JStr ''approval_required''"
    and "truthy (dict_get resp_data ''request_id'' (JStr ''''))"
  shows "sdk_evaluate repr c e action_type action_name arguments destination identity_name
           identity_roles protocol framework raise_on_deny =
         (fst (sdk_poll_approval (poll_results e) (dict_get resp_data ''request_id'' (JStr ''''))
                 resp_data raise_on_deny),
          c\<lparr>sdk_cache := od_del (cache_key repr action_type action_name arguments) (sdk_cache c)\<rparr>,
          PostEvaluate (sdk_call_body c e action_type action_name arguments destination
                          identity_name identity_roles protocol framework)
          # snd (sdk_poll_approval (poll_results e)
                   (dict_get resp_data ''request_id'' (JStr '''')) resp_data raise_on_deny))"
  by (simp only: sdk_evaluate_miss [OF assms(1)] assms(2) net_result.case
                 sdk_on_response_poll [OF assms(3,4)] prod.case)

lemma rt_evaluate_poll:
  assumes "cache_miss (rt_cache c) (cache_key repr action_type action_name arguments)
             (now_check e) (rt_cache_ttl c)"
    and "post_result e = NetJson (JDict resp_data)"
    and "decision_of resp_data = JStr ''approval_required''"
    and "truthy (dict_get resp_data ''request_id'' (JStr ''''))"
  shows "rt_evaluate repr c e action_type action_name arguments destination =
         (Inr (fst (rt_poll_approval (poll_results e)
                      (dict_get resp_data ''request_id'' (JStr '''')) resp_data)),
          c\<lparr>rt_cache := od_del (cache_key repr action_type action_name arguments) (rt_cache c)\<rparr>,
          PostEvaluate (rt_request_body c action_type action_name arguments destination)
          # snd (rt_poll_approval (poll_results e)
                   (dict_get resp_data ''request_id'' (JStr '''')) resp_data))"
  by (simp only: rt_evaluate_miss [OF assms(1)] assms(2) net_result.case
                 rt_on_response_poll [OF assms(3,4)] prod.case)

lemma poll_effects_3:
  "poll_effects 3 request_id =
     [Sleep 2, GetStatus request_id, Sleep 2, GetStatus request_id, Sleep 2, GetStatus request_id]"
  by (simp add: poll_effects_def poll_interval_def numeral_3_eq_3)

lemma count_sleeps_poll_effects:
  "length (filter is_sleep (poll_effects k request_id)) = k"
  by (induction k) (simp_all add: poll_effects_def)

lemma count_polls_poll_effects:
  "length (filter is_poll (poll_effects k request_id)) = k"
  by (induction k) (simp_all add: poll_effects_def)

lemma sdk_poll_pending_pending_approved:
  assumes "\<not> terminal_status (polls 0)" and "\<not> terminal_status (polls 1)"
    and "approved_status (polls 2)"
  shows "sdk_poll_approval polls request_id orig raise_on_deny =
     (Inr [(''decision'', JStr ''allow''),
           (''reason'', JStr ''approved''),
           (''request_id'', request_id),
           (''rule_id'', dict_get orig ''rule_id'' (JStr '''')),
           (''rule_name'', dict_get orig ''rule_name'' (JStr '''')),
           (''help_url'', JStr ''''),
           (''help_text'', JStr ''''),
           (''latency_ms'', dict_get orig ''latency_ms'' (JInt 0))],
      poll_effects 3 request_id)"
proof -
  have m: "(2::nat) < max_polls" by (simp add: max_polls_def)
  have before: "\<not> terminal_status (polls j)" if "j < 2" for j
  proof -
    from that have "j = 0 \<or> j = 1" by arith
    with assms(1,2) show ?thesis by auto
  qed
  have "Suc 2 = (3::nat)" by simp
  with sdk_poll_approval_approved_at [where m = 2 and polls = polls, OF m before assms(3),
      of request_id orig raise_on_deny]
  show ?thesis by (simp only:)
qed

lemma rt_poll_pending_pending_approved:
  assumes "\<not> terminal_status (polls 0)" and "\<not> terminal_status (polls 1)"
    and "approved_status (polls 2)"
  shows "rt_poll_approval polls request_id orig =
     ([(''decision'', JStr ''allow''),
       (''reason'', JStr ''approved''),
       (''request_id'', request_id)],
      poll_effects 3 request_id)"
proof -
  have m: "(2::nat) < max_polls" by (simp add: max_polls_def)
  have before: "\<not> terminal_status (polls j)" if "j < 2" for j
  proof -
    from that have "j = 0 \<or> j = 1" by arith
    with assms(1,2) show ?thesis by auto
  qed
  have "Suc 2 = (3::nat)" by simp
  with rt_poll_approval_approved_at [where m = 2 and polls = polls, OF m before assms(3),
      of request_id orig]
  show ?thesis by (simp only:)
qed

text \<open>
  C4, amended. The poller sleeps one interval of 2 before every status request, the first
  included, between 1 and 30 times. When the evaluation answers approval_required with a usable
  request id and the status requests answer pending, pending, approved, evaluate returns an allow
  decision with reason "approved" after exactly 3 sleeps and 3 status requests; the SDK client
  copies rule_id and rule_name from the evaluation response, the runtime client returns only
  decision, reason and request_id. When all 30 status requests are pending, both clients stop
  after 30 sleeps and 30 status requests.
\<close>

theorem approval_polling_waits:
  assumes "post_result e = NetJson (JDict resp_data)"
    and "decision_of resp_data = JStr ''approval_required''"
    and "truthy (dict_get resp_data ''request_id'' (JStr ''''))"
  shows
    "(cache_miss (sdk_cache c) (cache_key repr action_type action_name arguments)
        (now_check e) (sdk_cache_ttl c) \<longrightarrow>
        (\<exists>k. 1 \<le> k \<and> k \<le> 30 \<and>
           snd (snd (sdk_evaluate repr c e action_type action_name arguments destination
                       identity_name identity_roles protocol framework raise_on_deny)) =
           PostEvaluate (sdk_call_body c e action_type action_name arguments destination
                           identity_name identity_roles protocol framework)
           # poll_effects k (dict_get resp_data ''request_id'' (JStr '''')))
      \<and> (\<not> terminal_status (poll_results e 0) \<and> \<not> terminal_status (poll_results e 1)
           \<and> approved_status (poll_results e 2) \<longrightarrow>
           sdk_evaluate repr c e action_type action_name arguments destination
             identity_name identity_roles protocol framework raise_on_deny =
           (Inr [(''decision'', JStr ''allow''),
                 (''reason'', JStr ''approved''),
                 (''request_id'', dict_get resp_data ''request_id'' (JStr '''')),
                 (''rule_id'', dict_get resp_data ''rule_id'' (JStr '''')),
                 (''rule_name'', dict_get resp_data ''rule_name'' (JStr '''')),
                 (''help_url'', JStr ''''),
                 (''help_text'', JStr ''''),
                 (''latency_ms'', dict_get resp_data ''latency_ms'' (JInt 0))],
            c\<lparr>sdk_cache := od_del (cache_key repr action_type action_name arguments)
                              (sdk_cache c)\<rparr>,
            [PostEvaluate (sdk_call_body c e action_type action_name arguments destination
                             identity_name identity_roles protocol framework),
             Sleep 2, GetStatus (dict_get resp_data ''request_id'' (JStr '''')),
             Sleep 2, GetStatus (dict_get resp_data ''request_id'' (JStr '''')),
             Sleep 2, GetStatus (dict_get resp_data ''request_id'' (JStr ''''))]))
      \<and> ((\<forall>i<max_polls. \<not> terminal_status (poll_results e i)) \<longrightarrow>
           snd (snd (sdk_evaluate repr c e action_type action_name arguments destination
                       identity_name identity_roles protocol framework raise_on_deny)) =
           PostEvaluate (sdk_call_body c e action_type action_name arguments destination
                           identity_name identity_roles protocol framework)
           # poll_effects 30 (dict_get resp_data ''request_id'' (JStr ''''))))
   \<and> (cache_miss (rt_cache c2) (cache_key repr action_type action_name arguments)
        (now_check e) (rt_cache_ttl c2) \<longrightarrow>
        (\<exists>k. 1 \<le> k \<and> k \<le> 30 \<and>
           snd (snd (rt_evaluate repr c2 e action_type action_name arguments destination)) =
           PostEvaluate (rt_request_body c2 action_type action_name arguments destination)
           # poll_effects k (dict_get resp_data ''request_id'' (JStr '''')))
      \<and> (\<not> terminal_status (poll_results e 0) \<and> \<not> terminal_status (poll_results e 1)
           \<and> approved_status (poll_results e 2) \<longrightarrow>
           rt_evaluate repr c2 e action_type action_name arguments destination =
           (Inr [(''decision'', JStr ''allow''),
                 (''reason'', JStr ''approved''),
                 (''request_id'', dict_get resp_data ''request_id'' (JStr ''''))],
            c2\<lparr>rt_cache := od_del (cache_key repr action_type action_name arguments)
                              (rt_cache c2)\<rparr>,
            [PostEvaluate (rt_request_body c2 action_type action_name arguments destination),
             Sleep 2, GetStatus (dict_get resp_data ''request_id'' (JStr '''')),
             Sleep 2, GetStatus (dict_get resp_data ''request_id'' (JStr '''')),
             Sleep 2, GetStatus (dict_get resp_data ''request_id'' (JStr ''''))]))
      \<and> ((\<forall>i<max_polls. \<not> terminal_status (poll_results e i)) \<longrightarrow>
           snd (snd (rt_evaluate repr c2 e action_type action_name arguments destination)) =
           PostEvaluate (rt_request_body c2 action_type action_name arguments destination)
           # poll_effects 30 (dict_get resp_data ''request_id'' (JStr ''''))))"
proof (intro conjI impI)
  assume miss: "cache_miss (sdk_cache c) (cache_key repr action_type action_name arguments)
                  (now_check e) (sdk_cache_ttl c)"
  note ev = sdk_evaluate_poll [OF miss assms, of destination identity_name identity_roles
                                 protocol framework raise_on_deny]
  from sdk_poll_approval_trace [of "poll_results e" "dict_get resp_data ''request_id'' (JStr '''')"
                                  resp_data raise_on_deny]
  obtain k where k1: "1 \<le> k" and k2: "k \<le> max_polls"
    and tr: "snd (sdk_poll_approval (poll_results e) (dict_get resp_data ''request_id'' (JStr ''''))
                    resp_data raise_on_deny)
             = poll_effects k (dict_get resp_data ''request_id'' (JStr ''''))"
    by (elim exE conjE)
  from k2 have k3: "k \<le> 30" by (simp add: max_polls_def)
  have "snd (snd (sdk_evaluate repr c e action_type action_name arguments destination
                    identity_name identity_roles protocol framework raise_on_deny)) =
        PostEvaluate (sdk_call_body c e action_type action_name arguments destination
                        identity_name identity_roles protocol framework)
        # poll_effects k (dict_get resp_data ''request_id'' (JStr ''''))"
    by (simp only: ev tr snd_conv)
  with k1 k3 show "\<exists>k. 1 \<le> k \<and> k \<le> 30 \<and>
           snd (snd (sdk_evaluate repr c e action_type action_name arguments destination
                       identity_name identity_roles protocol framework raise_on_deny)) =
           PostEvaluate (sdk_call_body c e action_type action_name arguments destination
                           identity_name identity_roles protocol framework)
           # poll_effects k (dict_get resp_data ''request_id'' (JStr ''''))"
    by (intro exI [of _ k] conjI)
next
  assume miss: "cache_miss (sdk_cache c) (cache_key repr action_type action_name arguments)
                  (now_check e) (sdk_cache_ttl c)"
    and seq: "\<not> terminal_status (poll_results e 0) \<and> \<not> terminal_status (poll_results e 1)
              \<and> approved_status (poll_results e 2)"
  note ev = sdk_evaluate_poll [OF miss assms, of destination identity_name identity_roles
                                 protocol framework raise_on_deny]
  from seq have p0: "\<not> terminal_status (poll_results e 0)"
    and p1: "\<not> terminal_status (poll_results e 1)"
    and p2: "approved_status (poll_results e 2)"
    by simp_all
  show "sdk_evaluate repr c e action_type action_name arguments destination
             identity_name identity_roles protocol framework raise_on_deny =
           (Inr [(''decision'', JStr ''allow''),
                 (''reason'', JStr ''approved''),
                 (''request_id'', dict_get resp_data ''request_id'' (JStr '''')),
                 (''rule_id'', dict_get resp_data ''rule_id'' (JStr '''')),
                 (''rule_name'', dict_get resp_data ''rule_name'' (JStr '''')),
                 (''help_url'', JStr ''''),
                 (''help_text'', JStr ''''),
                 (''latency_ms'', dict_get resp_data ''latency_ms'' (JInt 0))],
            c\<lparr>sdk_cache := od_del (cache_key repr action_type action_name arguments)
                              (sdk_cache c)\<rparr>,
            [PostEvaluate (sdk_call_body c e action_type action_name arguments destination
                             identity_name identity_roles protocol framework),
             Sleep 2, GetStatus (dict_get resp_data ''request_id'' (JStr '''')),
             Sleep 2, GetStatus (dict_get resp_data ''request_id'' (JStr '''')),
             Sleep 2, GetStatus (dict_get resp_data ''request_id'' (JStr ''''))])"
    by (simp only: ev sdk_poll_pending_pending_approved [OF p0 p1 p2] poll_effects_3
                   fst_conv snd_conv)
next
  assume miss: "cache_miss (sdk_cache c) (cache_key repr action_type action_name arguments)
                  (now_check e) (sdk_cache_ttl c)"
    and pend: "\<forall>i<max_polls. \<not> terminal_status (poll_results e i)"
  note ev = sdk_evaluate_poll [OF miss assms, of destination identity_name identity_roles
                                 protocol framework raise_on_deny]
  have h: "\<not> terminal_status (poll_results e i)" if "i < max_polls" for i
    using pend that by blast
  have m: "max_polls = 30" by (simp add: max_polls_def)
  show "snd (snd (sdk_evaluate repr c e action_type action_name arguments destination
                       identity_name identity_roles protocol framework raise_on_deny)) =
           PostEvaluate (sdk_call_body c e action_type action_name arguments destination
                           identity_name identity_roles protocol framework)
           # poll_effects 30 (dict_get resp_data ''request_id'' (JStr ''''))"
    by (simp only: ev snd_conv m [symmetric]
          sdk_poll_approval_exhausted [of "poll_results e"
            "dict_get resp_data ''request_id'' (JStr '''')" resp_data raise_on_deny, OF h])
next
  assume miss: "cache_miss (rt_cache c2) (cache_key repr action_type action_name arguments)
                  (now_check e) (rt_cache_ttl c2)"
  note ev = rt_evaluate_poll [OF miss assms, of destination]
  from rt_poll_approval_trace [of "poll_results e" "dict_get resp_data ''request_id'' (JStr '''')"
                                 resp_data]
  obtain k where k1: "1 \<le> k" and k2: "k \<le> max_polls"
    and tr: "snd (rt_poll_approval (poll_results e) (dict_get resp_data ''request_id'' (JStr ''''))
                    resp_data)
             = poll_effects k (dict_get resp_data ''request_id'' (JStr ''''))"
    by (elim exE conjE)
  from k2 have k3: "k \<le> 30" by (simp add: max_polls_def)
  have "snd (snd (rt_evaluate repr c2 e action_type action_name arguments destination)) =
        PostEvaluate (rt_request_body c2 action_type action_name arguments destination)
        # poll_effects k (dict_get resp_data ''request_id'' (JStr ''''))"
    by (simp only: ev tr snd_conv)
  with k1 k3 show "\<exists>k. 1 \<le> k \<and> k \<le> 30 \<and>
           snd (snd (rt_evaluate repr c2 e action_type action_name arguments destination)) =
           PostEvaluate (rt_request_body c2 action_type action_name arguments destination)
           # poll_effects k (dict_get resp_data ''request_id'' (JStr ''''))"
    by (intro exI [of _ k] conjI)
next
  assume miss: "cache_miss (rt_cache c2) (cache_key repr action_type action_name arguments)
                  (now_check e) (rt_cache_ttl c2)"
    and seq: "\<not> terminal_status (poll_results e 0) \<and> \<not> terminal_status (poll_results e 1)
              \<and> approved_status (poll_results e 2)"
  note ev = rt_evaluate_poll [OF miss assms, of destination]
  from seq have p0: "\<not> terminal_status (poll_results e 0)"
    and p1: "\<not> terminal_status (poll_results e 1)"
    and p2: "approved_status (poll_results e 2)"
    by simp_all
  show "rt_evaluate repr c2 e action_type action_name arguments destination =
           (Inr [(''decision'', JStr ''allow''),
                 (''reason'', JStr ''approved''),
                 (''request_id'', dict_get resp_data ''request_id'' (JStr ''''))],
            c2\<lparr>rt_cache := od_del (cache_key repr action_type action_name arguments)
                              (rt_cache c2)\<rparr>,
            [PostEvaluate (rt_request_body c2 action_type action_name arguments destination),
             Sleep 2, GetStatus (dict_get resp_data ''request_id'' (JStr '''')),
             Sleep 2, GetStatus (dict_get resp_data ''request_id'' (JStr '''')),
             Sleep 2, GetStatus (dict_get resp_data ''request_id'' (JStr ''''))])"
    by (simp only: ev rt_poll_pending_pending_approved [OF p0 p1 p2] poll_effects_3
                   fst_conv snd_conv)
next
  assume miss: "cache_miss (rt_cache c2) (cache_key repr action_type action_name arguments)
                  (now_check e) (rt_cache_ttl c2)"
    and pend: "\<forall>i<max_polls. \<not> terminal_status (poll_results e i)"
  note ev = rt_evaluate_poll [OF miss assms, of destination]
  have h: "\<not> terminal_status (poll_results e i)" if "i < max_polls" for i
    using pend that by blast
  have m: "max_polls = 30" by (simp add: max_polls_def)
  show "snd (snd (rt_evaluate repr c2 e action_type action_name arguments destination)) =
           PostEvaluate (rt_request_body c2 action_type action_name arguments destination)
           # poll_effects 30 (dict_get resp_data ''request_id'' (JStr ''''))"
    by (simp only: ev snd_conv m [symmetric]
          rt_poll_approval_exhausted [of "poll_results e"
            "dict_get resp_data ''request_id'' (JStr '''')" resp_data, OF h])
qed

theorem approval_polling_waits_witness:
  "sdk_evaluate repr_items (fresh_sdk_client ''open'')
     (env_at 0 (NetJson (JDict approval_required_doc)) pending_pending_approved)
     ''command_exec'' ''deploy'' None None None None None None True =
     (Inr [(''decision'', JStr ''allow''),
           (''reason'', JStr ''approved''),
           (''request_id'', JStr ''req-approval-1''),
           (''rule_id'', JStr ''rule-approval''),
           (''rule_name'', JStr ''needs-approval''),
           (''help_url'', JStr ''''),
           (''help_text'', JStr ''''),
           (''latency_ms'', JInt 3)],
      fresh_sdk_client ''open'',
      [PostEvaluate [(''action_type'', JStr ''command_exec''),
                     (''action_name'', JStr ''deploy''),
                     (''protocol'', JStr ''sdk''),
                     (''identity_name'', JStr ''sdk-client''),
                     (''identity_roles'', JList [JStr ''agent''])],
       Sleep 2, GetStatus (JStr ''req-approval-1''),
       Sleep 2, GetStatus (JStr ''req-approval-1''),
       Sleep 2, GetStatus (JStr ''req-approval-1'')])
   \<and> rt_evaluate repr_items (fresh_rt_client ''open'')
     (env_at 0 (NetJson (JDict approval_required_doc)) pending_pending_approved)
     ''command_exec'' ''deploy'' None None =
     (Inr [(''decision'', JStr ''allow''),
           (''reason'', JStr ''approved''),
           (''request_id'', JStr ''req-approval-1'')],
      fresh_rt_client ''open'',
      [PostEvaluate [(''action_type'', JStr ''command_exec''),
                     (''action_name'', JStr ''deploy''),
                     (''protocol'', JStr ''runtime''),
                     (''framework'', JStr ''''),
                     (''gateway'', JStr ''runtime''),
                     (''arguments'', JDict []),
                     (''identity_name'', JStr ''runtime-agent-1''),
                     (''identity_roles'', JList [JStr ''agent''])],
       Sleep 2, GetStatus (JStr ''req-approval-1''),
       Sleep 2, GetStatus (JStr ''req-approval-1''),
       Sleep 2, GetStatus (JStr ''req-approval-1'')])"
proof -
  let ?e = "env_at 0 (NetJson (JDict approval_required_doc)) pending_pending_approved"
  have a1: "post_result ?e = NetJson (JDict approval_required_doc)"
    by (simp only: env_at_simps)
  note t = approval_polling_waits [OF a1 approval_required_doc_decision approval_required_doc_truthy,
      of "fresh_sdk_client ''open''" repr_items "''command_exec''" "''deploy''" None None None
         None None None True "fresh_rt_client ''open''"]
  have seq: "\<not> terminal_status (poll_results ?e 0) \<and> \<not> terminal_status (poll_results ?e 1)
             \<and> approved_status (poll_results ?e 2)"
    by (simp only: env_at_simps pending_pending_approved_simps simp_thms)
  note s = t [THEN conjunct1, THEN mp, OF fresh_sdk_miss, THEN conjunct2, THEN conjunct1,
              THEN mp, OF seq]
  note r = t [THEN conjunct2, THEN mp, OF fresh_rt_miss, THEN conjunct2, THEN conjunct1,
              THEN mp, OF seq]
  have d: "dict_get approval_required_doc ''rule_id'' (JStr '''') = JStr ''rule-approval''"
    "dict_get approval_required_doc ''rule_name'' (JStr '''') = JStr ''needs-approval''"
    "dict_get approval_required_doc ''latency_ms'' (JInt 0) = JInt 3"
    by (simp_all add: dict_get_def approval_required_doc_def)
  show ?thesis
  proof (rule conjI)
    from s show "sdk_evaluate repr_items (fresh_sdk_client ''open'') ?e
       ''command_exec'' ''deploy'' None None None None None None True =
       (Inr [(''decision'', JStr ''allow''),
             (''reason'', JStr ''approved''),
             (''request_id'', JStr ''req-approval-1''),
             (''rule_id'', JStr ''rule-approval''),
             (''rule_name'', JStr ''needs-approval''),
             (''help_url'', JStr ''''),
             (''help_text'', JStr ''''),
             (''latency_ms'', JInt 3)],
        fresh_sdk_client ''open'',
        [PostEvaluate [(''action_type'', JStr ''command_exec''),
                       (''action_name'', JStr ''deploy''),
                       (''protocol'', JStr ''sdk''),
                       (''identity_name'', JStr ''sdk-client''),
                       (''identity_roles'', JList [JStr ''agent''])],
         Sleep 2, GetStatus (JStr ''req-approval-1''),
         Sleep 2, GetStatus (JStr ''req-approval-1''),
         Sleep 2, GetStatus (JStr ''req-approval-1'')])"
      by (simp only: d approval_required_doc_request_id fresh_sdk_body fresh_sdk_od_del)
    from r show "rt_evaluate repr_items (fresh_rt_client ''open'') ?e
       ''command_exec'' ''deploy'' None None =
       (Inr [(''decision'', JStr ''allow''),
             (''reason'', JStr ''approved''),
             (''request_id'', JStr ''req-approval-1'')],
        fresh_rt_client ''open'',
        [PostEvaluate [(''action_type'', JStr ''command_exec''),
                       (''action_name'', JStr ''deploy''),
                       (''protocol'', JStr ''runtime''),
                       (''framework'', JStr ''''),
                       (''gateway'', JStr ''runtime''),
                       (''arguments'', JDict []),
                       (''identity_name'', JStr ''runtime-agent-1''),
                       (''identity_roles'', JList [JStr ''agent''])],
         Sleep 2, GetStatus (JStr ''req-approval-1''),
         Sleep 2, GetStatus (JStr ''req-approval-1''),
         Sleep 2, GetStatus (JStr ''req-approval-1'')])"
      by (simp only: approval_required_doc_request_id fresh_rt_body fresh_rt_od_del)
  qed
qed

text \<open>
  The SDK client on the answers pending, pending, approved: three sleeps, not two, and the
  runtime client's allow decision carries no rule_id.
\<close>

theorem three_polls_three_waits_counterexample:
  "length (filter is_sleep (snd (snd
     (sdk_evaluate repr_items (fresh_sdk_client ''open'')
        (env_at 0 (NetJson (JDict approval_required_doc)) pending_pending_approved)
        ''command_exec'' ''deploy'' None None None None None None True)))) = 3
   \<and> map_of (projr (fst
        (rt_evaluate repr_items (fresh_rt_client ''open'')
           (env_at 0 (NetJson (JDict approval_required_doc)) pending_pending_approved)
           ''command_exec'' ''deploy'' None None))) ''rule_id'' = None"
proof -
  let ?e = "env_at 0 (NetJson (JDict approval_required_doc)) pending_pending_approved"
  have a1: "post_result ?e = NetJson (JDict approval_required_doc)"
    by (simp only: env_at_simps)
  have p: "\<not> terminal_status (poll_results ?e 0)" "\<not> terminal_status (poll_results ?e 1)"
    "approved_status (poll_results ?e 2)"
    by (simp_all only: env_at_simps pending_pending_approved_simps simp_thms)
  note s = sdk_evaluate_poll [OF fresh_sdk_miss a1 approval_required_doc_decision
      approval_required_doc_truthy, of repr_items "''open''" "''command_exec''" "''deploy''"
      None None None None None None True]
  note r = rt_evaluate_poll [OF fresh_rt_miss a1 approval_required_doc_decision
      approval_required_doc_truthy, of repr_items "''open''" "''command_exec''" "''deploy''"
      None None]
  have "length (filter is_sleep (snd (snd
     (sdk_evaluate repr_items (fresh_sdk_client ''open'') ?e
        ''command_exec'' ''deploy'' None None None None None None True)))) = 3"
    by (simp only: s snd_conv sdk_poll_pending_pending_approved [OF p] filter.simps
                   is_sleep.simps if_False count_sleeps_poll_effects)
  moreover have "map_of (projr (fst
        (rt_evaluate repr_items (fresh_rt_client ''open'') ?e
           ''command_exec'' ''deploy'' None None))) ''rule_id'' = None"
    by (simp add: r rt_poll_pending_pending_approved [OF p])
  ultimately show ?thesis by (rule conjI)
qed

end
